theory Spec2Isabelle
  imports Complex_Main "HOL-Library.Multiset"
begin

section \<open>Standard analysis products of the CMOST camera: a shallow embedding\<close>

text \<open>
  The theory embeds \<^verbatim>\<open>standard_analysis_products\<close> of \<^verbatim>\<open>cmost_analysis.py\<close>.

  \<^item> numpy's float64 values are idealised as \<^typ>\<open>real\<close>: rounding, infinities and nan
    are not represented. Where numpy would produce nan (the square root of a negative
    number, the median of no values) the theorems carry a hypothesis that excludes the
    case; the division of line 347 is Python's, and raises ZeroDivisionError.
  \<^item> A Python exception is a value \<open>Inl e\<close> of the result; a function that returns
    normally gives \<open>Inr\<close>.
  \<^item> The dictionaries \<^verbatim>\<open>read_noise\<close>, \<^verbatim>\<open>det_gain\<close>, \<^verbatim>\<open>dark_current\<close> and
    \<^verbatim>\<open>well_depth\<close> are maps from labels to values, passed from step to step.
  \<^item> The collaborators that are not part of the file (the exposure loader, the
    least-squares fitter, matplotlib, git, the file system) are fields of an
    environment record: each may return or raise.
\<close>

subsection \<open>Python values and errors\<close>

datatype pyerror =
    IndexError
  | ValueError
  | ZeroDivisionError
  | ShapeError      \<comment> \<open>an exposure whose arrays do not have the shape its gain mode promises\<close>
  | ExternalError string  \<comment> \<open>an exception raised inside a collaborator\<close>

fun for_each :: "('a \<Rightarrow> 's \<Rightarrow> pyerror + 's) \<Rightarrow> 'a list \<Rightarrow> 's \<Rightarrow> pyerror + 's" where
  "for_each body [] s = Inr s"
| "for_each body (x # xs) s =
     (case body x s of Inl e \<Rightarrow> Inl e | Inr s' \<Rightarrow> for_each body xs s')"

text \<open>Sequencing: the second step runs when the first has not raised.\<close>

fun and_then :: "pyerror + 'a \<Rightarrow> ('a \<Rightarrow> pyerror + 'b) \<Rightarrow> pyerror + 'b" where
  "and_then (Inl e) f = Inl e"
| "and_then (Inr x) f = f x"

subsection \<open>Arrays\<close>

type_synonym frame = "real list list"

definition flatten :: "frame \<Rightarrow> real list" where
  "flatten f = concat f"

text \<open>Python's \<^verbatim>\<open>min\<close> and \<^verbatim>\<open>max\<close> of a sequence raise ValueError when it is empty.\<close>

definition py_min :: "real list \<Rightarrow> pyerror + real" where
  "py_min xs = (case xs of [] \<Rightarrow> Inl ValueError | y # ys \<Rightarrow> Inr (fold min ys y))"

definition py_max :: "real list \<Rightarrow> pyerror + real" where
  "py_max xs = (case xs of [] \<Rightarrow> Inl ValueError | y # ys \<Rightarrow> Inr (fold max ys y))"

text \<open>
  \<^verbatim>\<open>np.median\<close> of a one-dimensional array: the middle value of the sorted data, the
  mean of the two middle values when their number is even. numpy returns nan for no
  data at all, which \<^typ>\<open>real\<close> cannot hold; \<open>0\<close> stands in its place, and every call
  below is reached with data only.
\<close>

definition median :: "real list \<Rightarrow> real" where
  "median xs =
     (let s = sort xs; n = length s in
      if n = 0 then 0
      else if odd n then s ! (n div 2)
      else (s ! (n div 2 - 1) + s ! (n div 2)) / 2)"

text \<open>
  \<^verbatim>\<open>np.median(stack, axis=0)\<close> of a stack of frames of one shape: the median of every
  pixel across the stack. An empty stack has no shape in this representation (numpy
  keeps the shape and fills it with nan); the model gives the empty frame.
\<close>

definition median_axis0 :: "frame list \<Rightarrow> frame" where
  "median_axis0 stack =
     (case stack of
        [] \<Rightarrow> []
      | f # _ \<Rightarrow>
          map (\<lambda>r. map (\<lambda>c. median (map (\<lambda>g. g ! r ! c) stack)) [0..<length (f ! r)])
              [0..<length f])"

text \<open>The shape of a frame: the lengths of its rows.\<close>

definition shape :: "frame \<Rightarrow> nat list" where
  "shape f = map length f"

text \<open>\<^verbatim>\<open>np.stack\<close> raises ValueError for no arrays and for arrays of different shapes.\<close>

definition np_stack :: "frame list \<Rightarrow> pyerror + frame list" where
  "np_stack fs =
     (case fs of
        [] \<Rightarrow> Inl ValueError
      | f # gs \<Rightarrow> if (\<forall>g \<in> set gs. shape g = shape f) then Inr fs else Inl ValueError)"

text \<open>\<^verbatim>\<open>np.sqrt\<close>; numpy gives nan for a negative argument.\<close>

definition np_sqrt :: "real \<Rightarrow> real" where
  "np_sqrt x = sqrt x"

subsection \<open>The measurement dictionaries and the report\<close>

datatype page =
    TitlePage
  | HistPage string frame      \<comment> \<open>a page made by \<^verbatim>\<open>hist_page\<close>: title and image\<close>
  | DarkTimeSeries string      \<comment> \<open>mean over time of one dark mode\<close>
  | LinearityPTC
  | SummaryTable

record products =
  read_noise :: "string \<rightharpoonup> real"
  det_gain :: "string \<rightharpoonup> real"
  dark_current :: "string \<rightharpoonup> real"
  well_depth :: "string \<rightharpoonup> real"
  pages :: "page list"

subsection \<open>Conversion to electrons (lines 349 to 354)\<close>

definition convert_to_electrons :: "string \<Rightarrow> real \<Rightarrow> products \<Rightarrow> products" where
  "convert_to_electrons label k st =
     (let st1 = (case read_noise st label of
                   Some r \<Rightarrow> st\<lparr>read_noise := (read_noise st)(label \<mapsto> np_sqrt r * k)\<rparr>
                 | None \<Rightarrow> st);
          st2 = (case dark_current st1 label of
                   Some d \<Rightarrow> st1\<lparr>dark_current := (dark_current st1)(label \<mapsto> d * k)\<rparr>
                 | None \<Rightarrow> st1);
          st3 = (case well_depth st2 label of
                   Some w \<Rightarrow> st2\<lparr>well_depth := (well_depth st2)(label \<mapsto> w * k)\<rparr>
                 | None \<Rightarrow> st2)
      in st3)"


subsection \<open>Strings and file names\<close>

fun startswith :: "string \<Rightarrow> string \<Rightarrow> bool" where
  "startswith s [] = True"
| "startswith [] (c # p) = False"
| "startswith (x # s) (c # p) = (x = c \<and> startswith s p)"

text \<open>Python's \<^verbatim>\<open>sub in s\<close> on strings.\<close>

fun contains :: "string \<Rightarrow> string \<Rightarrow> bool" where
  "contains [] sub = (sub = [])"
| "contains (x # s) sub = (startswith (x # s) sub \<or> contains s sub)"

text \<open>\<^verbatim>\<open>s.split('_')\<close>: the fields between the separators, at least one.\<close>

fun split :: "char \<Rightarrow> string \<Rightarrow> string list" where
  "split sep [] = [[]]"
| "split sep (x # s) =
     (if x = sep then [] # split sep s
      else (case split sep s of w # ws \<Rightarrow> (x # w) # ws | [] \<Rightarrow> [[x]]))"

definition digit :: "nat \<Rightarrow> char" where
  "digit d = ''0123456789'' ! d"

fun str_nat :: "nat \<Rightarrow> string" where
  "str_nat n = (if n < 10 then [digit n] else str_nat (n div 10) @ [digit (n mod 10)])"

declare str_nat.simps [simp del]

definition os_path_join :: "string \<Rightarrow> string \<Rightarrow> string" where
  "os_path_join d f =
     (if d = [] then f else if last d = CHR ''/'' then d @ f else d @ ''/'' @ f)"

subsection \<open>Exposures and the collaborators\<close>

text \<open>
  A dual-gain (hdr) exposure carries two channels, high gain first; any other exposure
  carries one. \<open>cds_frames\<close> holds the frames of each channel, \<open>get_median\<close> and
  \<open>get_variance\<close> what the methods of these names return for the whole frame.
\<close>

datatype 'a chan = Dual 'a 'a | Mono 'a

record exposure =
  gain :: string
  exp_time :: real
  cds_frames :: "frame list chan"
  get_median :: "real chan"
  get_variance :: "real chan"

text \<open>The result of the fitter: the fitted amplitude, and whether the fit converged.\<close>

record fit_info =
  amplitude :: real
  converged :: bool

record env =
  listdir :: "string \<Rightarrow> pyerror + string list"
  Exposure :: "string \<Rightarrow> pyerror option"
  load_by_file_prefix :: "string \<Rightarrow> pyerror + exposure list"
  git_rev_parse :: "pyerror option"
  PdfPages :: "string \<Rightarrow> pyerror option"
  fit :: "real list \<Rightarrow> real list \<Rightarrow> pyerror + fit_info"
  savefig :: "page \<Rightarrow> pyerror option"

text \<open>\<^verbatim>\<open>xs[i]\<close> raises IndexError out of range.\<close>

definition item :: "'a list \<Rightarrow> nat \<Rightarrow> pyerror + 'a" where
  "item xs i = (if i < length xs then Inr (xs ! i) else Inl IndexError)"

text \<open>\<^verbatim>\<open>e.cds_frames[0,0]\<close>, \<^verbatim>\<open>e.cds_frames[0,1]\<close> and, with one channel, \<^verbatim>\<open>e.cds_frames[0]\<close>.\<close>

definition cds_high0 :: "exposure \<Rightarrow> pyerror + frame" where
  "cds_high0 e = (case cds_frames e of Dual hs ls \<Rightarrow> item hs 0 | Mono fs \<Rightarrow> Inl ShapeError)"

definition cds_low0 :: "exposure \<Rightarrow> pyerror + frame" where
  "cds_low0 e = (case cds_frames e of Dual hs ls \<Rightarrow> item ls 0 | Mono fs \<Rightarrow> Inl ShapeError)"

definition cds0 :: "exposure \<Rightarrow> pyerror + frame" where
  "cds0 e = (case cds_frames e of Mono fs \<Rightarrow> item fs 0 | Dual hs ls \<Rightarrow> Inl ShapeError)"

fun dual_columns :: "'a chan list \<Rightarrow> pyerror + 'a list \<times> 'a list" where
  "dual_columns [] = Inr ([], [])"
| "dual_columns (Dual a b # cs) =
     (case dual_columns cs of Inl e \<Rightarrow> Inl e | Inr (as, bs) \<Rightarrow> Inr (a # as, b # bs))"
| "dual_columns (Mono a # cs) = Inl ShapeError"

fun mono_column :: "'a chan list \<Rightarrow> pyerror + 'a list" where
  "mono_column [] = Inr []"
| "mono_column (Mono a # cs) = (case mono_column cs of Inl e \<Rightarrow> Inl e | Inr as \<Rightarrow> Inr (a # as))"
| "mono_column (Dual a b # cs) = Inl ShapeError"

subsection \<open>Pages\<close>

definition savepage :: "env \<Rightarrow> page \<Rightarrow> products \<Rightarrow> pyerror + products" where
  "savepage env p st =
     (case savefig env p of Some e \<Rightarrow> Inl e | None \<Rightarrow> Inr (st\<lparr>pages := pages st @ [p]\<rparr>))"

definition min_max :: "real list \<Rightarrow> pyerror + real \<times> real" where
  "min_max xs = and_then (py_min xs) (\<lambda>lo. and_then (py_max xs) (\<lambda>hi. Inr (lo, hi)))"

text \<open>
  \<^verbatim>\<open>hist_page\<close>: the extremes of the data, then a histogram of
  \<^verbatim>\<open>int(ceil(dmax) - floor(dmin))\<close> bins, for which \<^verbatim>\<open>np.histogram\<close> raises ValueError
  when the number is not positive; the drawing itself is \<open>savefig\<close>.
\<close>

definition hist_page :: "env \<Rightarrow> frame \<Rightarrow> string \<Rightarrow> products \<Rightarrow> pyerror + products" where
  "hist_page env data title st =
     and_then (min_max (flatten data)) (\<lambda>(dmin, dmax).
       let data_range = \<lceil>dmax\<rceil> - \<lfloor>dmin\<rfloor> in
       if data_range < 1 then Inl ValueError
       else savepage env (HistPage title data) st)"

subsection \<open>Bias frames (lines 95 to 124)\<close>

definition bias_channels :: "exposure \<Rightarrow> pyerror + (string \<times> frame \<times> real) list" where
  "bias_channels bifr =
     (if gain bifr = ''hdr'' then
        (case (cds_frames bifr, get_variance bifr) of
           (Dual hs ls, Dual vh vl) \<Rightarrow>
             Inr [(''high (dual-gain)'', median_axis0 hs, vh),
                  (''low (dual-gain)'', median_axis0 ls, vl)]
         | _ \<Rightarrow> Inl ShapeError)
      else
        (case (cds_frames bifr, get_variance bifr) of
           (Mono fs, Mono v) \<Rightarrow> Inr [(gain bifr, median_axis0 fs, v)]
         | _ \<Rightarrow> Inl ShapeError))"

definition bias_page :: "env \<Rightarrow> string \<times> frame \<times> real \<Rightarrow> products \<Rightarrow> pyerror + products" where
  "bias_page env ch st =
     (case ch of (g, med_bias, v) \<Rightarrow>
        and_then (min_max (flatten med_bias)) (\<lambda>mm.
          hist_page env med_bias (''Bias frames - gain: '' @ g)
            (st\<lparr>read_noise := (read_noise st)(g \<mapsto> np_sqrt v)\<rparr>)))"

definition bias_frame :: "env \<Rightarrow> exposure \<Rightarrow> products \<Rightarrow> pyerror + products" where
  "bias_frame env bifr st =
     and_then (bias_channels bifr) (\<lambda>chs. for_each (bias_page env) chs st)"

definition bias_section :: "env \<Rightarrow> string \<Rightarrow> products \<Rightarrow> pyerror + products" where
  "bias_section env prefix st =
     and_then (load_by_file_prefix env (prefix @ ''_bias'')) (\<lambda>bias_frames.
       for_each (bias_frame env) bias_frames st)"


subsection \<open>Standard operating darks (lines 129 to 248)\<close>

record dark_stacks =
  short_low :: "frame list"
  short_high :: "frame list"
  long_low :: "frame list"
  long_high :: "frame list"

text \<open>The exposure times of a mode, long and short.\<close>

definition dark_times :: "string \<Rightarrow> nat \<times> nat" where
  "dark_times mode = (if mode = ''FUVdark'' then (900, 9) else (300, 3))"

text \<open>The file prefixes of the long and the short frame of every acquisition, in loading order.\<close>

definition dark_prefixes :: "string \<Rightarrow> string \<Rightarrow> (string \<times> string) list" where
  "dark_prefixes prefix mode =
     (if mode = ''NUVguidingdark'' then
        concat (map (\<lambda>i. map (\<lambda>j.
            (prefix @ ''_'' @ mode @ str_nat i @ ''_FullDwell_exp'' @ str_nat j @ ''_UVEXNUV_4'',
             prefix @ ''_'' @ mode @ str_nat i @ ''_FullDwell_exp'' @ str_nat j @ ''_UVEXNUV_2''))
          [0..<3]) [0..<3])
      else
        map (\<lambda>i.
            (prefix @ ''_'' @ mode @ str_nat i @ ''_'' @ str_nat (fst (dark_times mode)) @ ''_'',
             prefix @ ''_'' @ mode @ str_nat i @ ''_'' @ str_nat (snd (dark_times mode)) @ ''_''))
          [0..<9])"

text \<open>\<^verbatim>\<open>load_by_file_prefix(p)[0]\<close>\<close>

definition load_first :: "env \<Rightarrow> string \<Rightarrow> pyerror + exposure" where
  "load_first env p = and_then (load_by_file_prefix env p) (\<lambda>exps. item exps 0)"

definition load_dark_pair :: "env \<Rightarrow> string \<times> string \<Rightarrow> dark_stacks \<Rightarrow> pyerror + dark_stacks" where
  "load_dark_pair env ps acc =
     and_then (load_first env (fst ps)) (\<lambda>long_frame.
     and_then (load_first env (snd ps)) (\<lambda>short_frame.
     and_then (cds_high0 long_frame) (\<lambda>lh.
     and_then (cds_low0 long_frame) (\<lambda>ll.
     and_then (cds_high0 short_frame) (\<lambda>sh.
     and_then (cds_low0 short_frame) (\<lambda>sl.
       Inr (acc\<lparr>long_high := long_high acc @ [lh], long_low := long_low acc @ [ll],
                short_high := short_high acc @ [sh], short_low := short_low acc @ [sl]\<rparr>)))))))"

definition load_dark_frames :: "env \<Rightarrow> string \<Rightarrow> string \<Rightarrow> pyerror + dark_stacks" where
  "load_dark_frames env prefix mode =
     for_each (load_dark_pair env) (dark_prefixes prefix mode)
       \<lparr>short_low = [], short_high = [], long_low = [], long_high = []\<rparr>"

text \<open>The four median frames with their names and exposure times (lines 174 to 182).\<close>

definition dark_median_frames :: "string \<Rightarrow> dark_stacks \<Rightarrow> pyerror + (string \<times> nat \<times> frame) list" where
  "dark_median_frames mode stacks =
     and_then (np_stack (long_high stacks)) (\<lambda>lh.
     and_then (np_stack (long_low stacks)) (\<lambda>ll.
     and_then (np_stack (short_high stacks)) (\<lambda>sh.
     and_then (np_stack (short_low stacks)) (\<lambda>sl.
       Inr [(''short low-gain'', snd (dark_times mode), median_axis0 sl),
            (''short high-gain'', snd (dark_times mode), median_axis0 sh),
            (''long low-gain'', fst (dark_times mode), median_axis0 ll),
            (''long high-gain'', fst (dark_times mode), median_axis0 lh)]))))"

definition dark_frame_page :: "env \<Rightarrow> string \<Rightarrow> string \<times> nat \<times> frame \<Rightarrow> products \<Rightarrow> pyerror + products" where
  "dark_frame_page env mode x st =
     (case x of (name, t, med_dark) \<Rightarrow>
        and_then (min_max (flatten med_dark)) (\<lambda>mm.
          let mmedian = median (flatten med_dark);
              st' = (if mode = ''FUVdark'' \<and> name = ''long low-gain''
                     then st\<lparr>dark_current := (dark_current st)(''low (dual-gain)'' \<mapsto> mmedian / real t)\<rparr>
                     else if mode = ''FUVdark'' \<and> name = ''long high-gain''
                     then st\<lparr>dark_current := (dark_current st)(''high (dual-gain)'' \<mapsto> mmedian / real t)\<rparr>
                     else st)
          in hist_page env med_dark (''Dark frames - '' @ mode @ '' mode - '' @ name @ '' frame'') st'))"

definition dark_frames_products :: "env \<Rightarrow> string \<Rightarrow> dark_stacks \<Rightarrow> products \<Rightarrow> pyerror + products" where
  "dark_frames_products env mode stacks st =
     and_then (dark_median_frames mode stacks) (\<lambda>frames.
     and_then (for_each (dark_frame_page env mode) frames st) (\<lambda>st'.
       savepage env (DarkTimeSeries mode) st'))"

definition dark_mode :: "env \<Rightarrow> string \<Rightarrow> string \<Rightarrow> products \<Rightarrow> pyerror + products" where
  "dark_mode env prefix mode st =
     and_then (load_dark_frames env prefix mode) (\<lambda>stacks.
       dark_frames_products env mode stacks st)"

definition dark_section :: "env \<Rightarrow> string \<Rightarrow> products \<Rightarrow> pyerror + products" where
  "dark_section env prefix st =
     for_each (dark_mode env prefix) [''FUVdark'', ''NUVdark'', ''NUVguidingdark''] st"

subsection \<open>Flat fields and the photon transfer curve (lines 250 to 368)\<close>

record flat_acc =
  gain_label :: "string list"
  sat_flats :: "frame list"
  mid_flats :: "frame list"
  mid_flat_times :: "real list"
  exp_times :: "real list list"
  med_sig :: "real list list"
  var :: "real list list"

text \<open>\<^verbatim>\<open>np.where(mask)[0]\<close>: the indices at which the mask holds, ascending.\<close>

definition np_where :: "bool list \<Rightarrow> nat list" where
  "np_where msk = filter (\<lambda>i. msk ! i) [0..<length msk]"

text \<open>\<^verbatim>\<open>np.where( (medians > 5000) & (medians < 15000) )[0][0]\<close>\<close>

definition mid_exp_i :: "real list \<Rightarrow> pyerror + nat" where
  "mid_exp_i medians = item (np_where (map (\<lambda>m. 5000 < m \<and> m < 15000) medians)) 0"

text \<open>\<^verbatim>\<open>np.argmax\<close>: the first index of the greatest value.\<close>

definition np_argmax :: "real list \<Rightarrow> real \<Rightarrow> nat" where
  "np_argmax xs mx = length (takeWhile (\<lambda>x. x \<noteq> mx) xs)"

definition flat_gain :: "env \<Rightarrow> string \<Rightarrow> string \<Rightarrow> flat_acc \<Rightarrow> pyerror + flat_acc" where
  "flat_gain env prefix g acc =
     and_then (load_by_file_prefix env (prefix @ ''_flat_'' @ g)) (\<lambda>flat_frames.
     let exp = map exp_time flat_frames in
     and_then (py_max exp) (\<lambda>max_exp.
     let max_i = np_argmax exp max_exp in
     if g = ''hdr'' then
         and_then (item flat_frames max_i) (\<lambda>sat.
         and_then (cds_high0 sat) (\<lambda>sat_h.
         and_then (cds_low0 sat) (\<lambda>sat_l.
         and_then (dual_columns (map get_median flat_frames)) (\<lambda>(mh, ml).
         and_then (dual_columns (map get_variance flat_frames)) (\<lambda>(vh, vl).
         and_then (mid_exp_i mh) (\<lambda>hmid_exp_i.
         and_then (mid_exp_i ml) (\<lambda>lmid_exp_i.
         and_then (item flat_frames hmid_exp_i) (\<lambda>hmid.
         and_then (item flat_frames lmid_exp_i) (\<lambda>lmid.
         and_then (cds_high0 hmid) (\<lambda>mid_h.
         and_then (cds_low0 lmid) (\<lambda>mid_l.
           Inr (acc\<lparr>gain_label := gain_label acc @ [''high (dual-gain)'', ''low (dual-gain)''],
                   sat_flats := sat_flats acc @ [sat_h, sat_l],
                   exp_times := exp_times acc @ [exp, exp],
                   med_sig := med_sig acc @ [mh, ml],
                   var := var acc @ [vh, vl],
                   mid_flat_times := mid_flat_times acc @ [exp ! hmid_exp_i, exp ! lmid_exp_i],
                   mid_flats := mid_flats acc @ [mid_h, mid_l]\<rparr>))))))))))))
     else
         and_then (item flat_frames max_i) (\<lambda>sat.
         and_then (cds0 sat) (\<lambda>sat_f.
         and_then (mono_column (map get_median flat_frames)) (\<lambda>medians.
         and_then (mono_column (map get_variance flat_frames)) (\<lambda>variance.
         and_then (mid_exp_i medians) (\<lambda>mid_i.
         and_then (item flat_frames mid_i) (\<lambda>mid.
         and_then (cds0 mid) (\<lambda>mid_f.
           Inr (acc\<lparr>gain_label := gain_label acc @ [g],
                   sat_flats := sat_flats acc @ [sat_f],
                   exp_times := exp_times acc @ [exp],
                   med_sig := med_sig acc @ [medians],
                   var := var acc @ [variance],
                   mid_flats := mid_flats acc @ [mid_f],
                   mid_flat_times := mid_flat_times acc @ [exp ! mid_i]\<rparr>))))))))))"

text \<open>The empty lists of lines 251 and 252.\<close>

definition no_flats :: flat_acc where
  "no_flats = \<lparr>gain_label = [], sat_flats = [], mid_flats = [], mid_flat_times = [],
     exp_times = [], med_sig = [], var = []\<rparr>"

definition load_flats :: "env \<Rightarrow> string \<Rightarrow> pyerror + flat_acc" where
  "load_flats env prefix = for_each (flat_gain env prefix) [''hdr'', ''high'', ''low''] no_flats"

text \<open>The page of a mid-range flat (lines 292 to 301); the label is \<^verbatim>\<open>gain_label[i]\<close>.\<close>

definition mid_flat_page :: "env \<Rightarrow> flat_acc \<Rightarrow> nat \<Rightarrow> products \<Rightarrow> pyerror + products" where
  "mid_flat_page env acc i st =
     (let flat = mid_flats acc ! i in
      and_then (min_max (flatten flat)) (\<lambda>mm.
      and_then (item (gain_label acc) i) (\<lambda>label.
        hist_page env flat (''Mid-range flat frame - gain: '' @ label) st)))"

text \<open>The well depth of a channel (lines 304 to 317).\<close>

definition well_depth_page :: "env \<Rightarrow> flat_acc \<Rightarrow> nat \<Rightarrow> products \<Rightarrow> pyerror + products" where
  "well_depth_page env acc i st =
     (let flat = sat_flats acc ! i in
      and_then (min_max (flatten flat)) (\<lambda>mm.
      let smedian = median (flatten flat) in
      and_then (item (gain_label acc) i) (\<lambda>label.
        hist_page env flat (''Well depth (saturated flat frame) - gain: '' @ label)
          (st\<lparr>well_depth := (well_depth st)(label \<mapsto> smedian)\<rparr>))))"

text \<open>Boolean mask indexing \<^verbatim>\<open>xs[mask]\<close>.\<close>

definition mask_select :: "bool list \<Rightarrow> 'a list \<Rightarrow> 'a list" where
  "mask_select msk xs = map snd (filter fst (zip msk xs))"

text \<open>\<^verbatim>\<open>PowerLaw1D\<close>: \<open>amplitude * (x / x_0) ** (-alpha)\<close>.\<close>

definition PowerLaw1D :: "real \<Rightarrow> real \<Rightarrow> real \<Rightarrow> real \<Rightarrow> real" where
  "PowerLaw1D amp x_0 alpha x = amp * (x / x_0) powr (- alpha)"

text \<open>
  One channel of the photon transfer curve (lines 341 to 354). The model is
  \<^verbatim>\<open>PowerLaw1D(amplitude=1, alpha=-1)\<close> with \<open>x_0\<close> at its default \<open>1\<close>; only the
  amplitude is fitted. The fitted model at the scalar \<open>5000\<close> is a Python float, so that
  \<^verbatim>\<open>5000 / model_fit(5000)\<close> raises ZeroDivisionError when the model is \<open>0\<close> there.
\<close>

definition ptc_channel :: "env \<Rightarrow> flat_acc \<Rightarrow> nat \<Rightarrow> products \<Rightarrow> pyerror + products" where
  "ptc_channel env acc j st =
     and_then (item (med_sig acc) j) (\<lambda>signal.
     let unsaturated = map (\<lambda>s. s < 15000) signal;
         sig = mask_select unsaturated signal in
     and_then (item (var acc) j) (\<lambda>variance.
     let v = mask_select unsaturated variance in
     and_then (py_min v) (\<lambda>noise_floor.
     and_then (fit env sig (map (\<lambda>x. x - noise_floor) v)) (\<lambda>model_fit.
     let y = PowerLaw1D (amplitude model_fit) 1 (- 1) 5000 in
     if y = 0 then Inl ZeroDivisionError
     else
       (let k = 5000 / y in
        and_then (item (gain_label acc) j) (\<lambda>label.
          Inr (convert_to_electrons label k (st\<lparr>det_gain := (det_gain st)(label \<mapsto> k)\<rparr>))))))))"

definition flat_section :: "env \<Rightarrow> string \<Rightarrow> products \<Rightarrow> pyerror + products" where
  "flat_section env prefix st =
     and_then (load_flats env prefix) (\<lambda>acc.
     and_then (for_each (mid_flat_page env acc) [0..<length (mid_flats acc)] st) (\<lambda>st1.
     and_then (for_each (well_depth_page env acc) [0..<length (sat_flats acc)] st1) (\<lambda>st2.
     and_then (for_each (ptc_channel env acc) [0..<4] st2) (\<lambda>st3.
       savepage env LinearityPTC st3))))"

subsection \<open>The whole run (lines 28 to 402)\<close>

datatype retval = PyFalse | PyNone products

record outcome =
  printed :: "string list"
  report :: "string option"
  returned :: "pyerror + retval"

definition present :: "string \<Rightarrow> string list \<Rightarrow> bool" where
  "present kind files = list_ex (\<lambda>f. contains f kind) files"

definition report_body :: "env \<Rightarrow> string \<Rightarrow> string list \<Rightarrow> pyerror + products" where
  "report_body env prefix files =
     (case git_rev_parse env of
        Some e \<Rightarrow> Inl e
      | None \<Rightarrow>
          and_then (savepage env TitlePage
                      \<lparr>read_noise = Map.empty, det_gain = Map.empty, dark_current = Map.empty,
                       well_depth = Map.empty, pages = []\<rparr>) (\<lambda>st0.
          and_then (if present ''bias'' files then bias_section env prefix st0 else Inr st0) (\<lambda>st1.
          and_then (if present ''dark'' files then dark_section env prefix st1 else Inr st1) (\<lambda>st2.
          and_then (if present ''flat'' files then flat_section env prefix st2 else Inr st2) (\<lambda>st3.
            if present ''bias'' files \<and> present ''dark'' files \<and> present ''flat'' files
            then savepage env SummaryTable st3 else Inr st3)))))"

text \<open>An exception that leaves the function before the report is opened.\<close>

definition raised :: "pyerror \<Rightarrow> outcome" where
  "raised e = \<lparr>printed = [], report = None, returned = Inl e\<rparr>"

definition standard_analysis_products :: "env \<Rightarrow> string \<Rightarrow> outcome" where
  "standard_analysis_products env dirname =
     (case listdir env dirname of
        Inl e \<Rightarrow> raised e
      | Inr files \<Rightarrow>
          if length files < 1
          then \<lparr>printed = [''No data files found in directory''], report = None,
                returned = Inr PyFalse\<rparr>
          else
            (let f = split CHR ''_'' (files ! 0); camera = f ! 0 in
             (case item f 1 of
                Inl e \<Rightarrow> raised e
              | Inr detid \<Rightarrow>
                  (case Exposure env (os_path_join dirname (files ! 0)) of
                     Some e \<Rightarrow> raised e
                   | None \<Rightarrow>
                       (let pdf = os_path_join dirname
                                    (camera @ ''_'' @ detid @ ''_analysis_report.pdf'') in
                        (case PdfPages env pdf of
                           Some e \<Rightarrow> raised e
                         | None \<Rightarrow>
                             \<lparr>printed = [], report = Some pdf,
                              returned =
                                and_then (report_body env (dirname @ ''/'' @ camera @ ''_'' @ detid) files)
                                  (\<lambda>st. Inr (PyNone st))\<rparr>))))))"


subsection \<open>What the loader promises\<close>

text \<open>
  The arrays of an exposure loaded for gain mode \<open>g\<close> have the shape of that mode:
  two channels for \<^verbatim>\<open>hdr\<close> and one otherwise, each with at least one frame.
\<close>

definition wf_exposure :: "string \<Rightarrow> exposure \<Rightarrow> bool" where
  "wf_exposure g e =
     (if g = ''hdr'' then
        (case (cds_frames e, get_median e, get_variance e) of
           (Dual hs ls, Dual mh ml, Dual vh vl) \<Rightarrow> hs \<noteq> [] \<and> ls \<noteq> []
         | _ \<Rightarrow> False)
      else
        (case (cds_frames e, get_median e, get_variance e) of
           (Mono fs, Mono m, Mono v) \<Rightarrow> fs \<noteq> []
         | _ \<Rightarrow> False))"

text \<open>The median signals of one channel of a group of flats: \<open>0\<close> is the high-gain
  channel of a dual-gain group or the only channel, \<open>1\<close> the low-gain channel.\<close>

definition channel_medians :: "nat \<Rightarrow> exposure list \<Rightarrow> real list" where
  "channel_medians c flat_frames =
     map (\<lambda>e. case get_median e of Dual mh ml \<Rightarrow> if c = 0 then mh else ml | Mono m \<Rightarrow> m)
       flat_frames"

subsection \<open>Sample data\<close>

definition sample_frame :: frame where
  "sample_frame = [[9 / 2, 9 / 2]]"

definition sample_dark :: exposure where
  "sample_dark = \<lparr>gain = ''hdr'', exp_time = 900,
     cds_frames = Dual [sample_frame] [sample_frame],
     get_median = Dual (9 / 2) (9 / 2), get_variance = Dual 4 4\<rparr>"

definition sample_bias_hdr :: exposure where
  "sample_bias_hdr = \<lparr>gain = ''hdr'', exp_time = 0,
     cds_frames = Dual [[[0, 1]], [[1, 3]], [[2, 2]]] [[[0, 2]], [[1, 1]], [[5, 3]]],
     get_median = Dual 1 1, get_variance = Dual 256 16\<rparr>"

definition sample_bias_high :: exposure where
  "sample_bias_high = \<lparr>gain = ''high'', exp_time = 0,
     cds_frames = Mono [[[0, 1]], [[1, 3]]],
     get_median = Mono 1, get_variance = Mono 81\<rparr>"

definition sample_flat_dual :: "real \<Rightarrow> real \<Rightarrow> real \<Rightarrow> exposure" where
  "sample_flat_dual t m v = \<lparr>gain = ''hdr'', exp_time = t,
     cds_frames = Dual [[[m, m + 2]]] [[[m - 2, m]]],
     get_median = Dual (m + 1) (m - 1), get_variance = Dual v (v / 2)\<rparr>"

definition sample_flat_mono :: "real \<Rightarrow> real \<Rightarrow> real \<Rightarrow> exposure" where
  "sample_flat_mono t m v = \<lparr>gain = ''high'', exp_time = t,
     cds_frames = Mono [[[m, m + 2]]],
     get_median = Mono (m + 1), get_variance = Mono v\<rparr>"

definition sample_load :: "string \<Rightarrow> pyerror + exposure list" where
  "sample_load p =
     (if contains p ''_bias'' then Inr [sample_bias_hdr, sample_bias_high]
      else if contains p ''_flat_hdr''
      then Inr [sample_flat_dual 1 999 10, sample_flat_dual 2 5999 40, sample_flat_dual 3 19999 50]
      else if contains p ''_flat_''
      then Inr [sample_flat_mono 1 999 10, sample_flat_mono 2 5999 40, sample_flat_mono 3 19999 50]
      else Inr [sample_dark])"

definition sample_files :: "string list" where
  "sample_files = [''cam_det_bias_hdr_20240413.fits'', ''cam_det_FUVdark0_900_20240413.fits'',
                   ''cam_det_flat_hdr_20240413.fits'']"

definition sample_env :: env where
  "sample_env = \<lparr>
     listdir = (\<lambda>d. Inr sample_files),
     Exposure = (\<lambda>p. None),
     load_by_file_prefix = sample_load,
     git_rev_parse = None,
     PdfPages = (\<lambda>p. None),
     fit = (\<lambda>sig v. Inr \<lparr>amplitude = 1 / 2, converged = True\<rparr>),
     savefig = (\<lambda>p. None)\<rparr>"

definition empty_products :: products where
  "empty_products = \<lparr>read_noise = Map.empty, det_gain = Map.empty, dark_current = Map.empty,
     well_depth = Map.empty, pages = []\<rparr>"

definition sample_products :: products where
  "sample_products = \<lparr>read_noise = [''high'' \<mapsto> 16], det_gain = Map.empty,
     dark_current = [''high'' \<mapsto> 1], well_depth = [''high'' \<mapsto> 100], pages = []\<rparr>"

definition sample_flats :: flat_acc where
  "sample_flats = \<lparr>
     gain_label = [''high (dual-gain)'', ''low (dual-gain)'', ''high'', ''low''],
     sat_flats = [[[19999, 20001]], [[19997, 19999]], [[19999, 20001]], [[19999, 20001]]],
     mid_flats = [[[5999, 6001]], [[5997, 5999]], [[5999, 6001]], [[5999, 6001]]],
     mid_flat_times = [2, 2, 2, 2],
     exp_times = [[1, 2, 3], [1, 2, 3], [1, 2, 3], [1, 2, 3]],
     med_sig = [[1000, 6000, 20000], [998, 5998, 19998], [1000, 6000, 20000], [1000, 6000, 20000]],
     var = [[10, 40, 50], [5, 20, 25], [10, 40, 50], [10, 40, 50]]\<rparr>"

definition sample_flats_hdr :: flat_acc where
  "sample_flats_hdr = \<lparr>
     gain_label = [''high (dual-gain)'', ''low (dual-gain)''],
     sat_flats = [[[19999, 20001]], [[19997, 19999]]],
     mid_flats = [[[5999, 6001]], [[5997, 5999]]],
     mid_flat_times = [2, 2],
     exp_times = [[1, 2, 3], [1, 2, 3]],
     med_sig = [[1000, 6000, 20000], [998, 5998, 19998]],
     var = [[10, 40, 50], [5, 20, 25]]\<rparr>"

definition sample_stacks :: dark_stacks where
  "sample_stacks = \<lparr>short_low = replicate 9 sample_frame, short_high = replicate 9 sample_frame,
     long_low = replicate 9 sample_frame, long_high = replicate 9 sample_frame\<rparr>"

definition sample_converted :: products where
  "sample_converted = \<lparr>read_noise = [''high'' \<mapsto> 8],
     det_gain = [''high (dual-gain)'' \<mapsto> 2, ''low (dual-gain)'' \<mapsto> 2, ''high'' \<mapsto> 2, ''low'' \<mapsto> 2],
     dark_current = [''high'' \<mapsto> 2], well_depth = [''high'' \<mapsto> 200], pages = []\<rparr>"

definition sample_dark_pages :: "string \<Rightarrow> page list" where
  "sample_dark_pages mode =
     [HistPage (''Dark frames - '' @ mode @ '' mode - short low-gain frame'') sample_frame,
      HistPage (''Dark frames - '' @ mode @ '' mode - short high-gain frame'') sample_frame,
      HistPage (''Dark frames - '' @ mode @ '' mode - long low-gain frame'') sample_frame,
      HistPage (''Dark frames - '' @ mode @ '' mode - long high-gain frame'') sample_frame,
      DarkTimeSeries mode]"

definition sample_bias_products :: products where
  "sample_bias_products = \<lparr>
     read_noise = [''high (dual-gain)'' \<mapsto> 16, ''low (dual-gain)'' \<mapsto> 4, ''high'' \<mapsto> 9],
     det_gain = Map.empty, dark_current = Map.empty, well_depth = Map.empty,
     pages = [TitlePage,
              HistPage ''Bias frames - gain: high (dual-gain)'' [[1, 2]],
              HistPage ''Bias frames - gain: low (dual-gain)'' [[1, 2]],
              HistPage ''Bias frames - gain: high'' [[1 / 2, 2]]]\<rparr>"

definition sample_dark_products :: products where
  "sample_dark_products = sample_bias_products\<lparr>
     dark_current := [''low (dual-gain)'' \<mapsto> 1 / 200, ''high (dual-gain)'' \<mapsto> 1 / 200],
     pages := pages sample_bias_products @ sample_dark_pages ''FUVdark'' @
              sample_dark_pages ''NUVdark'' @ sample_dark_pages ''NUVguidingdark''\<rparr>"

definition sample_flat_pages :: "page list" where
  "sample_flat_pages =
     [HistPage ''Mid-range flat frame - gain: high (dual-gain)'' [[5999, 6001]],
      HistPage ''Mid-range flat frame - gain: low (dual-gain)'' [[5997, 5999]],
      HistPage ''Mid-range flat frame - gain: high'' [[5999, 6001]],
      HistPage ''Mid-range flat frame - gain: low'' [[5999, 6001]],
      HistPage ''Well depth (saturated flat frame) - gain: high (dual-gain)'' [[19999, 20001]],
      HistPage ''Well depth (saturated flat frame) - gain: low (dual-gain)'' [[19997, 19999]],
      HistPage ''Well depth (saturated flat frame) - gain: high'' [[19999, 20001]],
      HistPage ''Well depth (saturated flat frame) - gain: low'' [[19999, 20001]],
      LinearityPTC]"

definition sample_flat_products :: products where
  "sample_flat_products = \<lparr>
     read_noise = [''high (dual-gain)'' \<mapsto> 8, ''low (dual-gain)'' \<mapsto> 4, ''high'' \<mapsto> 6],
     det_gain = [''high (dual-gain)'' \<mapsto> 2, ''low (dual-gain)'' \<mapsto> 2, ''high'' \<mapsto> 2, ''low'' \<mapsto> 2],
     dark_current = [''high (dual-gain)'' \<mapsto> 1 / 100, ''low (dual-gain)'' \<mapsto> 1 / 100],
     well_depth = [''high (dual-gain)'' \<mapsto> 40000, ''low (dual-gain)'' \<mapsto> 39996,
                   ''high'' \<mapsto> 40000, ''low'' \<mapsto> 40000],
     pages = pages sample_dark_products @ sample_flat_pages\<rparr>"

definition sample_report :: products where
  "sample_report = sample_flat_products\<lparr>pages := pages sample_flat_products @ [SummaryTable]\<rparr>"

definition sample_env_no_low :: env where
  "sample_env_no_low = sample_env\<lparr>load_by_file_prefix :=
     (\<lambda>p. if p = ''data/cam_det_flat_low'' then Inr [] else sample_load p)\<rparr>"

definition sample_env_no_mid :: env where
  "sample_env_no_mid = sample_env\<lparr>load_by_file_prefix :=
     (\<lambda>p. if p = ''data/cam_det_flat_high''
          then Inr [sample_flat_mono 1 4999 10, sample_flat_mono 2 14999 40]
          else sample_load p)\<rparr>"

definition sample_env_unconverged :: env where
  "sample_env_unconverged = sample_env\<lparr>fit :=
     (\<lambda>sig v. Inr \<lparr>amplitude = 1 / 2, converged = False\<rparr>)\<rparr>"

definition sample_env_zero_fit :: env where
  "sample_env_zero_fit = sample_env\<lparr>fit :=
     (\<lambda>sig v. Inr \<lparr>amplitude = 0, converged = True\<rparr>)\<rparr>"

definition sample_env_fit_raises :: env where
  "sample_env_fit_raises = sample_env\<lparr>fit :=
     (\<lambda>sig v. Inl (ExternalError ''fit''))\<rparr>"

definition sample_flats_saturated :: flat_acc where
  "sample_flats_saturated = sample_flats\<lparr>
     med_sig := [[15000, 20000], [15000, 20000], [15000, 20000], [15000, 20000]],
     var := [[40, 50], [40, 50], [40, 50], [40, 50]]\<rparr>"

definition const_frame :: "real \<Rightarrow> frame" where
  "const_frame V = [[V, V], [V, V]]"

definition dual_dark :: "real \<Rightarrow> frame \<Rightarrow> frame \<Rightarrow> exposure" where
  "dual_dark t fh fl = \<lparr>gain = ''hdr'', exp_time = t, cds_frames = Dual [fh] [fl],
     get_median = Dual (median (flatten fh)) (median (flatten fl)), get_variance = Dual 4 4\<rparr>"

definition FUVdark_long_files :: "string list" where
  "FUVdark_long_files =
     [''data/cam_det_FUVdark0_900_'', ''data/cam_det_FUVdark1_900_'', ''data/cam_det_FUVdark2_900_'',
      ''data/cam_det_FUVdark3_900_'', ''data/cam_det_FUVdark4_900_'', ''data/cam_det_FUVdark5_900_'',
      ''data/cam_det_FUVdark6_900_'', ''data/cam_det_FUVdark7_900_'', ''data/cam_det_FUVdark8_900_'']"

definition FUVdark_short_files :: "string list" where
  "FUVdark_short_files =
     [''data/cam_det_FUVdark0_9_'', ''data/cam_det_FUVdark1_9_'', ''data/cam_det_FUVdark2_9_'',
      ''data/cam_det_FUVdark3_9_'', ''data/cam_det_FUVdark4_9_'', ''data/cam_det_FUVdark5_9_'',
      ''data/cam_det_FUVdark6_9_'', ''data/cam_det_FUVdark7_9_'', ''data/cam_det_FUVdark8_9_'']"

definition dark_scenario_load :: "frame \<Rightarrow> frame \<Rightarrow> string \<Rightarrow> pyerror + exposure list" where
  "dark_scenario_load fh fl p =
     (if p \<in> set FUVdark_long_files then Inr [dual_dark 900 fh fl]
      else if p \<in> set FUVdark_short_files then Inr [dual_dark 9 [[1, 2], [3, 5]] [[2, 3], [4, 6]]]
      else if contains p ''_NUV'' then Inr [dual_dark 300 [[100, 200], [300, 400]] [[150, 250], [350, 450]]]
      else Inr [])"

definition dark_scenario_env :: "frame \<Rightarrow> frame \<Rightarrow> env" where
  "dark_scenario_env fh fl = sample_env\<lparr>
     listdir := (\<lambda>d. Inr [''cam_det_FUVdark0_900_20240413.fits'']),
     load_by_file_prefix := dark_scenario_load fh fl\<rparr>"

definition NUV_stacks :: dark_stacks where
  "NUV_stacks = \<lparr>short_low = replicate 9 [[150, 250], [350, 450]],
     short_high = replicate 9 [[100, 200], [300, 400]],
     long_low = replicate 9 [[150, 250], [350, 450]],
     long_high = replicate 9 [[100, 200], [300, 400]]\<rparr>"



section \<open>Properties\<close>

subsection \<open>Sequencing and indexing\<close>

lemma and_then_Inr: "and_then m f = Inr y \<longleftrightarrow> (\<exists>x. m = Inr x \<and> f x = Inr y)"
  by (cases m) auto

lemma and_then_Inl: "and_then m f = Inl e \<longleftrightarrow> m = Inl e \<or> (\<exists>x. m = Inr x \<and> f x = Inl e)"
  by (cases m) auto

lemma item_Inr: "item xs i = Inr x \<longleftrightarrow> i < length xs \<and> x = xs ! i"
  by (auto simp: item_def)

lemma item_Inl: "item xs i = Inl e \<longleftrightarrow> length xs \<le> i \<and> e = IndexError"
  by (auto simp: item_def)

lemma upt_4: "[0..<4] = [0, 1, 2, 3]"
  by (simp add: upt_rec)

lemma upt_9: "[0..<9] = [0, 1, 2, 3, 4, 5, 6, 7, 8]"
  by (simp add: upt_rec)

lemma upt_3: "[0..<3] = [0, 1, 2]"
  by (simp add: upt_rec)

subsection \<open>Conversion to electrons\<close>

lemma conv_read_noise:
  "read_noise (convert_to_electrons l k st) =
     (case read_noise st l of
        None \<Rightarrow> read_noise st
      | Some r \<Rightarrow> (read_noise st)(l \<mapsto> np_sqrt r * k))"
  by (simp add: convert_to_electrons_def Let_def split: option.splits)

lemma conv_dark_current:
  "dark_current (convert_to_electrons l k st) =
     (case dark_current st l of
        None \<Rightarrow> dark_current st
      | Some d \<Rightarrow> (dark_current st)(l \<mapsto> d * k))"
  by (simp add: convert_to_electrons_def Let_def split: option.splits)

lemma conv_well_depth:
  "well_depth (convert_to_electrons l k st) =
     (case well_depth st l of
        None \<Rightarrow> well_depth st
      | Some w \<Rightarrow> (well_depth st)(l \<mapsto> w * k))"
  by (simp add: convert_to_electrons_def Let_def split: option.splits)

lemma conv_det_gain: "det_gain (convert_to_electrons l k st) = det_gain st"
  by (simp add: convert_to_electrons_def Let_def split: option.splits)

lemma conv_pages: "pages (convert_to_electrons l k st) = pages st"
  by (simp add: convert_to_electrons_def Let_def split: option.splits)

lemma ptc_channel_Inr:
  assumes "ptc_channel env acc j st = Inr st'"
  obtains k where
    "st' = convert_to_electrons (gain_label acc ! j) k
             (st\<lparr>det_gain := (det_gain st)(gain_label acc ! j \<mapsto> k)\<rparr>)"
  using assms by (auto simp: ptc_channel_def and_then_Inr item_Inr Let_def split: if_splits)

lemma sample_ptc_channel:
  "ptc_channel sample_env sample_flats 2 sample_products =
     Inr \<lparr>read_noise = [''high'' \<mapsto> 8], det_gain = [''high'' \<mapsto> 2],
          dark_current = [''high'' \<mapsto> 2], well_depth = [''high'' \<mapsto> 200], pages = []\<rparr>"
  by (simp add: ptc_channel_def sample_env_def sample_flats_def sample_products_def item_def
      mask_select_def py_min_def PowerLaw1D_def convert_to_electrons_def np_sqrt_def Let_def)

text \<open>
  C1. Once the fit has given the conversion gain \<open>k\<close> of a channel (recorded in
  \<open>det_gain\<close>), the entries of that channel's label are rewritten in place:
  the read noise becomes \<open>sqrt(read_noise) * k\<close>, the dark current and the well depth
  are multiplied by \<open>k\<close>; a dictionary without the label is left as it is, and so is
  every other entry.
\<close>

theorem ptc_channel_converts_in_place:
  assumes "ptc_channel env acc j st = Inr st'"
  shows "\<exists>k. det_gain st' (gain_label acc ! j) = Some k \<and>
           read_noise st' =
             (case read_noise st (gain_label acc ! j) of
                None \<Rightarrow> read_noise st
              | Some r \<Rightarrow> (read_noise st)(gain_label acc ! j \<mapsto> np_sqrt r * k)) \<and>
           dark_current st' =
             (case dark_current st (gain_label acc ! j) of
                None \<Rightarrow> dark_current st
              | Some d \<Rightarrow> (dark_current st)(gain_label acc ! j \<mapsto> d * k)) \<and>
           well_depth st' =
             (case well_depth st (gain_label acc ! j) of
                None \<Rightarrow> well_depth st
              | Some w \<Rightarrow> (well_depth st)(gain_label acc ! j \<mapsto> w * k))"
proof -
  from assms obtain k where
    st': "st' = convert_to_electrons (gain_label acc ! j) k
                  (st\<lparr>det_gain := (det_gain st)(gain_label acc ! j \<mapsto> k)\<rparr>)"
    by (rule ptc_channel_Inr)
  show ?thesis
    by (rule exI [of _ k])
       (simp add: st' conv_read_noise conv_dark_current conv_well_depth conv_det_gain
          split: option.split)
qed

theorem ptc_channel_converts_in_place_witness:
  "ptc_channel sample_env sample_flats 2 sample_products =
     Inr \<lparr>read_noise = [''high'' \<mapsto> 8], det_gain = [''high'' \<mapsto> 2],
          dark_current = [''high'' \<mapsto> 2], well_depth = [''high'' \<mapsto> 200], pages = []\<rparr> \<and>
   (\<exists>k. [''high'' \<mapsto> 2] ''high'' = Some k \<and>
        [''high'' \<mapsto> 8] = [''high'' \<mapsto> sqrt 16 * k] \<and>
        [''high'' \<mapsto> 2] = [''high'' \<mapsto> 1 * k] \<and>
        [''high'' \<mapsto> 200] = [''high'' \<mapsto> 100 * k])"
  using ptc_channel_converts_in_place [OF sample_ptc_channel] sample_ptc_channel
  by (simp add: sample_flats_def sample_products_def np_sqrt_def)

lemma ptc_channel_other:
  assumes "ptc_channel env acc j st = Inr st'" and "l \<noteq> gain_label acc ! j"
  shows "read_noise st' l = read_noise st l \<and> dark_current st' l = dark_current st l \<and>
         well_depth st' l = well_depth st l \<and> det_gain st' l = det_gain st l"
proof -
  from assms(1) obtain k where
    st': "st' = convert_to_electrons (gain_label acc ! j) k
                  (st\<lparr>det_gain := (det_gain st)(gain_label acc ! j \<mapsto> k)\<rparr>)"
    by (rule ptc_channel_Inr)
  show ?thesis using assms(2)
    by (simp add: st' conv_read_noise conv_dark_current conv_well_depth conv_det_gain
          split: option.split)
qed

lemma ptc_channel_own:
  assumes "ptc_channel env acc j st = Inr st'"
  shows "\<exists>k. det_gain st' (gain_label acc ! j) = Some k \<and>
           read_noise st' (gain_label acc ! j) =
             map_option (\<lambda>r. np_sqrt r * k) (read_noise st (gain_label acc ! j)) \<and>
           dark_current st' (gain_label acc ! j) =
             map_option (\<lambda>d. d * k) (dark_current st (gain_label acc ! j)) \<and>
           well_depth st' (gain_label acc ! j) =
             map_option (\<lambda>w. w * k) (well_depth st (gain_label acc ! j))"
proof -
  from assms(1) obtain k where
    st': "st' = convert_to_electrons (gain_label acc ! j) k
                  (st\<lparr>det_gain := (det_gain st)(gain_label acc ! j \<mapsto> k)\<rparr>)"
    by (rule ptc_channel_Inr)
  show ?thesis
    by (rule exI [of _ k])
       (simp add: st' conv_read_noise conv_dark_current conv_well_depth conv_det_gain
          split: option.split)
qed

lemma ptc_loop_other:
  assumes "for_each (ptc_channel env acc) js st = Inr st'"
    and "l \<notin> (\<lambda>j. gain_label acc ! j) ` set js"
  shows "read_noise st' l = read_noise st l \<and> dark_current st' l = dark_current st l \<and>
         well_depth st' l = well_depth st l \<and> det_gain st' l = det_gain st l"
  using assms
proof (induction js arbitrary: st)
  case Nil
  then show ?case by simp
next
  case (Cons j js)
  from Cons.prems(1) obtain st1 where
    s1: "ptc_channel env acc j st = Inr st1" and
    s2: "for_each (ptc_channel env acc) js st1 = Inr st'"
    by (auto split: sum.splits)
  from Cons.prems(2) have a: "l \<noteq> gain_label acc ! j"
    and b: "l \<notin> (\<lambda>j. gain_label acc ! j) ` set js" by auto
  from Cons.IH [OF s2 b] ptc_channel_other [OF s1 a] show ?case by simp
qed

lemma ptc_loop_once:
  assumes "for_each (ptc_channel env acc) js st = Inr st'"
    and "distinct (map (\<lambda>j. gain_label acc ! j) js)"
    and "j \<in> set js"
  shows "\<exists>k. det_gain st' (gain_label acc ! j) = Some k \<and>
           read_noise st' (gain_label acc ! j) =
             map_option (\<lambda>r. np_sqrt r * k) (read_noise st (gain_label acc ! j)) \<and>
           dark_current st' (gain_label acc ! j) =
             map_option (\<lambda>d. d * k) (dark_current st (gain_label acc ! j)) \<and>
           well_depth st' (gain_label acc ! j) =
             map_option (\<lambda>w. w * k) (well_depth st (gain_label acc ! j))"
  using assms
proof (induction js arbitrary: st)
  case Nil
  then show ?case by simp
next
  case (Cons i js)
  from Cons.prems(1) obtain st1 where
    s1: "ptc_channel env acc i st = Inr st1" and
    s2: "for_each (ptc_channel env acc) js st1 = Inr st'"
    by (auto split: sum.splits)
  from Cons.prems(2) have d: "distinct (map (\<lambda>j. gain_label acc ! j) js)"
    and n: "gain_label acc ! i \<notin> (\<lambda>j. gain_label acc ! j) ` set js" by auto
  show ?case
  proof (cases "j \<in> set js")
    case True
    with n have "gain_label acc ! j \<noteq> gain_label acc ! i" by (metis image_eqI)
    from ptc_channel_other [OF s1 this] Cons.IH [OF s2 d True] show ?thesis by simp
  next
    case False
    with Cons.prems(3) have ji: "j = i" by simp
    from ptc_loop_other [OF s2 n] ptc_channel_own [OF s1] show ?thesis
      unfolding ji by simp
  qed
qed

lemma sample_ptc_loop:
  "for_each (ptc_channel sample_env sample_flats) [0..<4] sample_products =
     Inr sample_converted"
  by (simp add: upt_4 ptc_channel_def sample_env_def sample_flats_def sample_products_def item_def
      mask_select_def py_min_def PowerLaw1D_def convert_to_electrons_def np_sqrt_def Let_def
      sample_converted_def)

text \<open>
  C2, as the code has it. The conversion step has no guard against a second application:
  applied twice to the same dictionaries it multiplies the dark current and the well
  depth by \<open>k\<close> twice and takes the square root of the read noise twice. What holds is
  that one pass of the loop over the four channels converts the entries of every channel
  exactly once when the four labels are distinct, with the gain recorded for that channel.
\<close>

theorem conversion_twice_converts_again:
  "dark_current (convert_to_electrons l k (convert_to_electrons l k st)) l =
     map_option (\<lambda>d. d * k * k) (dark_current st l) \<and>
   well_depth (convert_to_electrons l k (convert_to_electrons l k st)) l =
     map_option (\<lambda>w. w * k * k) (well_depth st l) \<and>
   read_noise (convert_to_electrons l k (convert_to_electrons l k st)) l =
     map_option (\<lambda>r. np_sqrt (np_sqrt r * k) * k) (read_noise st l) \<and>
   (for_each (ptc_channel env acc) [0..<4] st = Inr st' \<and>
    distinct (take 4 (gain_label acc)) \<and> j < 4 \<longrightarrow>
      (\<exists>k. det_gain st' (gain_label acc ! j) = Some k \<and>
           read_noise st' (gain_label acc ! j) =
             map_option (\<lambda>r. np_sqrt r * k) (read_noise st (gain_label acc ! j)) \<and>
           dark_current st' (gain_label acc ! j) =
             map_option (\<lambda>d. d * k) (dark_current st (gain_label acc ! j)) \<and>
           well_depth st' (gain_label acc ! j) =
             map_option (\<lambda>w. w * k) (well_depth st (gain_label acc ! j))))"
proof (intro conjI impI)
  assume a: "for_each (ptc_channel env acc) [0..<4] st = Inr st' \<and>
    distinct (take 4 (gain_label acc)) \<and> j < 4"
  then have run: "for_each (ptc_channel env acc) [0..<4] st = Inr st'" by simp
  then have "4 \<le> length (gain_label acc)"
    by (auto simp: upt_4 ptc_channel_def and_then_Inr item_Inr Let_def split: sum.splits if_splits)
  then have "map (\<lambda>j. gain_label acc ! j) [0..<4] = take 4 (gain_label acc)"
    by (intro nth_equalityI) auto
  with a have d: "distinct (map (\<lambda>j. gain_label acc ! j) [0..<4])" by simp
  from a have "j \<in> set [0..<4]" by simp
  from ptc_loop_once [OF run d this]
  show "\<exists>k. det_gain st' (gain_label acc ! j) = Some k \<and>
           read_noise st' (gain_label acc ! j) =
             map_option (\<lambda>r. np_sqrt r * k) (read_noise st (gain_label acc ! j)) \<and>
           dark_current st' (gain_label acc ! j) =
             map_option (\<lambda>d. d * k) (dark_current st (gain_label acc ! j)) \<and>
           well_depth st' (gain_label acc ! j) =
             map_option (\<lambda>w. w * k) (well_depth st (gain_label acc ! j))" .
qed (simp_all add: conv_read_noise conv_dark_current conv_well_depth split: option.split)

theorem conversion_twice_converts_again_witness:
  "for_each (ptc_channel sample_env sample_flats) [0..<4] sample_products =
     Inr sample_converted \<and>
   distinct (take 4 (gain_label sample_flats)) \<and>
   det_gain sample_converted ''high'' = Some 2 \<and>
   dark_current sample_products ''high'' = Some 1 \<and>
   dark_current sample_converted ''high'' = Some (1 * 2) \<and>
   dark_current (convert_to_electrons ''high'' 2 (convert_to_electrons ''high'' 2 sample_products))
     ''high'' = Some (1 * 2 * 2)"
  using conversion_twice_converts_again
          [where l = "''high''" and k = 2 and st = sample_products and env = sample_env
             and acc = sample_flats and j = 2 and st' = sample_converted] sample_ptc_loop
  by (simp add: sample_flats_def sample_products_def sample_converted_def)

text \<open>
  C2, as stated, fails: with gain \<open>2\<close> a stored dark current of \<open>1\<close> is \<open>2\<close> after one
  application of the conversion and \<open>4\<close> after two.
\<close>

theorem conversion_twice_counterexample:
  "dark_current (convert_to_electrons ''high'' 2 sample_products) ''high'' = Some 2 \<and>
   dark_current (convert_to_electrons ''high'' 2 (convert_to_electrons ''high'' 2 sample_products))
     ''high'' = Some 4"
  by (simp add: conv_dark_current sample_products_def)

subsection \<open>Mid-range exposures and the unsaturated samples\<close>

lemma filter_upt_first:
  "(\<exists>xs. filter P [a..<b] = x # xs) \<longleftrightarrow>
     a \<le> x \<and> x < b \<and> P x \<and> (\<forall>j. a \<le> j \<and> j < x \<longrightarrow> \<not> P j)"
proof (induction "b - a" arbitrary: a)
  case 0
  then show ?case by auto
next
  case (Suc n)
  then have ab: "a < b" and n: "n = b - Suc a" by auto
  have split: "[a..<b] = a # [Suc a..<b]" using ab by (simp add: upt_rec)
  show ?case
  proof (cases "P a")
    case True
    then show ?thesis using ab by (auto simp: split)
  next
    case False
    then have "(\<exists>xs. filter P [a..<b] = x # xs) \<longleftrightarrow> (\<exists>xs. filter P [Suc a..<b] = x # xs)"
      by (simp add: split)
    also have "\<dots> \<longleftrightarrow> Suc a \<le> x \<and> x < b \<and> P x \<and> (\<forall>j. Suc a \<le> j \<and> j < x \<longrightarrow> \<not> P j)"
      by (rule Suc.hyps(1) [OF n])
    also have "\<dots> \<longleftrightarrow> a \<le> x \<and> x < b \<and> P x \<and> (\<forall>j. a \<le> j \<and> j < x \<longrightarrow> \<not> P j)"
      using False by (metis Suc_leI le_neq_implies_less Suc_leD order_less_irrefl)
    finally show ?thesis .
  qed
qed

lemma mid_exp_i_Inr:
  "mid_exp_i medians = Inr i \<longleftrightarrow>
     i < length medians \<and> 5000 < medians ! i \<and> medians ! i < 15000 \<and>
     (\<forall>j<i. \<not> (5000 < medians ! j \<and> medians ! j < 15000))"
proof -
  let ?m = "map (\<lambda>m. 5000 < m \<and> m < 15000) medians"
  have "mid_exp_i medians = Inr i \<longleftrightarrow> (\<exists>xs. filter (\<lambda>i. ?m ! i) [0..<length ?m] = i # xs)"
    by (cases "filter (\<lambda>i. ?m ! i) [0..<length ?m]")
       (simp_all add: mid_exp_i_def np_where_def item_def)
  also have "\<dots> \<longleftrightarrow> i < length ?m \<and> ?m ! i \<and> (\<forall>j. 0 \<le> j \<and> j < i \<longrightarrow> \<not> ?m ! j)"
    by (simp add: filter_upt_first)
  also have "\<dots> \<longleftrightarrow> i < length medians \<and> 5000 < medians ! i \<and> medians ! i < 15000 \<and>
     (\<forall>j<i. \<not> (5000 < medians ! j \<and> medians ! j < 15000))"
    by auto
  finally show ?thesis .
qed

lemma mid_exp_i_Inl:
  "mid_exp_i medians = Inl e \<longleftrightarrow>
     e = IndexError \<and> (\<forall>m \<in> set medians. \<not> (5000 < m \<and> m < 15000))"
proof -
  have "mid_exp_i medians = Inl e \<longleftrightarrow>
          e = IndexError \<and> (\<forall>i<length medians. \<not> (5000 < medians ! i \<and> medians ! i < 15000))"
    by (auto simp: mid_exp_i_def np_where_def item_Inl filter_empty_conv)
  then show ?thesis
    by (simp add: all_set_conv_all_nth)
qed

lemma mask_select_filter:
  "mask_select (map P xs) xs = filter P xs"
  by (induction xs) (simp_all add: mask_select_def)

lemma mask_select_zip:
  "mask_select (map P xs) ys = map snd (filter (\<lambda>(x, y). P x) (zip xs ys))"
proof (induction xs arbitrary: ys)
  case Nil
  then show ?case by (simp add: mask_select_def)
next
  case (Cons x xs)
  then show ?case by (cases ys) (simp_all add: mask_select_def)
qed

lemma dual_columns_Inr:
  "dual_columns (map get_median ffs) = Inr (a, b) \<Longrightarrow>
     a = channel_medians 0 ffs \<and> b = channel_medians 1 ffs"
proof (induction ffs arbitrary: a b)
  case Nil
  then show ?case by (simp add: channel_medians_def)
next
  case (Cons e ffs)
  then show ?case
    by (cases "get_median e") (auto simp: channel_medians_def split: sum.splits)
qed

lemma mono_column_Inr:
  "mono_column (map get_median ffs) = Inr a \<Longrightarrow> a = channel_medians c ffs"
proof (induction ffs arbitrary: a)
  case Nil
  then show ?case by (simp add: channel_medians_def)
next
  case (Cons e ffs)
  then show ?case
    by (cases "get_median e") (auto simp: channel_medians_def split: sum.splits)
qed

lemma flat_gain_hdr_Inr:
  assumes "flat_gain env prefix ''hdr'' acc = Inr acc'"
  obtains ffs max_exp sat_h sat_l vh vl h l mid_h mid_l where
    "load_by_file_prefix env (prefix @ ''_flat_hdr'') = Inr ffs"
    "py_max (map exp_time ffs) = Inr max_exp"
    "dual_columns (map get_variance ffs) = Inr (vh, vl)"
    "mid_exp_i (channel_medians 0 ffs) = Inr h"
    "mid_exp_i (channel_medians 1 ffs) = Inr l"
    "cds_high0 (ffs ! np_argmax (map exp_time ffs) max_exp) = Inr sat_h"
    "cds_low0 (ffs ! np_argmax (map exp_time ffs) max_exp) = Inr sat_l"
    "cds_high0 (ffs ! h) = Inr mid_h"
    "cds_low0 (ffs ! l) = Inr mid_l"
    "acc' = acc\<lparr>gain_label := gain_label acc @ [''high (dual-gain)'', ''low (dual-gain)''],
                  sat_flats := sat_flats acc @ [sat_h, sat_l],
                  exp_times := exp_times acc @ [map exp_time ffs, map exp_time ffs],
                  med_sig := med_sig acc @ [channel_medians 0 ffs, channel_medians 1 ffs],
                  var := var acc @ [vh, vl],
                  mid_flat_times := mid_flat_times acc @ [exp_time (ffs ! h), exp_time (ffs ! l)],
                  mid_flats := mid_flats acc @ [mid_h, mid_l]\<rparr>"
proof -
  from assms obtain ffs max_exp sat sat_h sat_l mh ml vh vl h l hmid lmid mid_h mid_l where
    f: "load_by_file_prefix env (prefix @ ''_flat_hdr'') = Inr ffs"
       "py_max (map exp_time ffs) = Inr max_exp"
       "item ffs (np_argmax (map exp_time ffs) max_exp) = Inr sat"
       "cds_high0 sat = Inr sat_h" "cds_low0 sat = Inr sat_l"
       "dual_columns (map get_median ffs) = Inr (mh, ml)"
       "dual_columns (map get_variance ffs) = Inr (vh, vl)"
       "mid_exp_i mh = Inr h" "mid_exp_i ml = Inr l"
       "item ffs h = Inr hmid" "item ffs l = Inr lmid"
       "cds_high0 hmid = Inr mid_h" "cds_low0 lmid = Inr mid_l"
       "acc' = acc\<lparr>gain_label := gain_label acc @ [''high (dual-gain)'', ''low (dual-gain)''],
                  sat_flats := sat_flats acc @ [sat_h, sat_l],
                  exp_times := exp_times acc @ [map exp_time ffs, map exp_time ffs],
                  med_sig := med_sig acc @ [mh, ml],
                  var := var acc @ [vh, vl],
                  mid_flat_times := mid_flat_times acc @ [map exp_time ffs ! h, map exp_time ffs ! l],
                  mid_flats := mid_flats acc @ [mid_h, mid_l]\<rparr>"
    by (auto simp: flat_gain_def Let_def and_then_Inr split: prod.splits)
  from dual_columns_Inr [OF f(6)] have m: "mh = channel_medians 0 ffs" "ml = channel_medians 1 ffs"
    by simp_all
  from f(3,10,11) have i: "sat = ffs ! np_argmax (map exp_time ffs) max_exp" "hmid = ffs ! h"
    "lmid = ffs ! l" "h < length ffs" "l < length ffs"
    by (simp_all add: item_Inr)
  show ?thesis
    by (rule that [OF f(1,2,7) f(8,9) [unfolded m] f(4,5) [unfolded i] f(12,13) [unfolded i]])
       (use f(14) m i in simp)
qed

lemma flat_gain_mono_Inr:
  assumes "flat_gain env prefix g acc = Inr acc'" and "g \<noteq> ''hdr''"
  obtains ffs max_exp sat_f variance i mid_f where
    "load_by_file_prefix env (prefix @ ''_flat_'' @ g) = Inr ffs"
    "py_max (map exp_time ffs) = Inr max_exp"
    "mono_column (map get_variance ffs) = Inr variance"
    "mid_exp_i (channel_medians 0 ffs) = Inr i"
    "cds0 (ffs ! np_argmax (map exp_time ffs) max_exp) = Inr sat_f"
    "cds0 (ffs ! i) = Inr mid_f"
    "acc' = acc\<lparr>gain_label := gain_label acc @ [g],
                  sat_flats := sat_flats acc @ [sat_f],
                  exp_times := exp_times acc @ [map exp_time ffs],
                  med_sig := med_sig acc @ [channel_medians 0 ffs],
                  var := var acc @ [variance],
                  mid_flats := mid_flats acc @ [mid_f],
                  mid_flat_times := mid_flat_times acc @ [exp_time (ffs ! i)]\<rparr>"
proof -
  from assms obtain ffs max_exp sat sat_f medians variance i mid mid_f where
    f: "load_by_file_prefix env (prefix @ ''_flat_'' @ g) = Inr ffs"
       "py_max (map exp_time ffs) = Inr max_exp"
       "item ffs (np_argmax (map exp_time ffs) max_exp) = Inr sat"
       "cds0 sat = Inr sat_f"
       "mono_column (map get_median ffs) = Inr medians"
       "mono_column (map get_variance ffs) = Inr variance"
       "mid_exp_i medians = Inr i"
       "item ffs i = Inr mid"
       "cds0 mid = Inr mid_f"
       "acc' = acc\<lparr>gain_label := gain_label acc @ [g],
                  sat_flats := sat_flats acc @ [sat_f],
                  exp_times := exp_times acc @ [map exp_time ffs],
                  med_sig := med_sig acc @ [medians],
                  var := var acc @ [variance],
                  mid_flats := mid_flats acc @ [mid_f],
                  mid_flat_times := mid_flat_times acc @ [map exp_time ffs ! i]\<rparr>"
    by (auto simp: flat_gain_def Let_def and_then_Inr)
  from mono_column_Inr [OF f(5)] have m: "medians = channel_medians 0 ffs" .
  from f(3,8) have i: "sat = ffs ! np_argmax (map exp_time ffs) max_exp" "mid = ffs ! i"
    "i < length ffs"
    by (simp_all add: item_Inr)
  show ?thesis
    by (rule that [OF f(1,2,6) f(7) [unfolded m] f(4) [unfolded i] f(9) [unfolded i]])
       (use f(10) m i in simp)
qed

lemma ptc_channel_fit:
  assumes "ptc_channel env acc j st = Inr st'"
  shows "\<exists>noise_floor model_fit.
           fit env (filter (\<lambda>s. s < 15000) (med_sig acc ! j))
             (map (\<lambda>x. x - noise_floor)
                (map snd (filter (\<lambda>(s, v). s < 15000) (zip (med_sig acc ! j) (var acc ! j))))) =
           Inr model_fit"
  using assms
  by (auto simp: ptc_channel_def and_then_Inr item_Inr Let_def mask_select_filter mask_select_zip)

lemmas sample_flat_evals = flat_gain_def sample_env_def sample_load_def sample_flat_dual_def
  sample_flat_mono_def py_max_def np_argmax_def item_def cds_high0_def cds_low0_def cds0_def
  mid_exp_i_def np_where_def no_flats_def Let_def

lemma sample_flat_gain_hdr:
  "flat_gain sample_env ''data/cam_det'' ''hdr'' no_flats = Inr sample_flats_hdr"
  by (simp add: sample_flat_evals sample_flats_hdr_def)

lemma sample_load_flats: "load_flats sample_env ''data/cam_det'' = Inr sample_flats"
  by (simp add: load_flats_def sample_flat_evals sample_flats_def)

text \<open>
  C4. The mid-range exposure of a channel is the first one, in the order of the sequence,
  whose median signal lies strictly between 5000 and 15000 ADU, so a median of exactly
  5000 or exactly 15000 never qualifies; it is the exposure whose frame and exposure time
  the flat analysis keeps. The samples handed to the fit of the photon transfer curve are
  exactly those with a median signal strictly below 15000, with their variances; a
  sample at exactly 15000 is left out.
\<close>

theorem mid_range_and_unsaturated_are_strict:
  "(mid_exp_i medians = Inr i \<longleftrightarrow>
      i < length medians \<and> 5000 < medians ! i \<and> medians ! i < 15000 \<and>
      (\<forall>j<i. \<not> (5000 < medians ! j \<and> medians ! j < 15000))) \<and>
   (flat_gain env prefix g acc = Inr acc' \<longrightarrow>
      (\<exists>ffs. load_by_file_prefix env (prefix @ ''_flat_'' @ g) = Inr ffs \<and>
         (if g = ''hdr''
          then \<exists>h l mid_h mid_l.
                 mid_exp_i (channel_medians 0 ffs) = Inr h \<and>
                 mid_exp_i (channel_medians 1 ffs) = Inr l \<and>
                 cds_high0 (ffs ! h) = Inr mid_h \<and> cds_low0 (ffs ! l) = Inr mid_l \<and>
                 mid_flats acc' = mid_flats acc @ [mid_h, mid_l] \<and>
                 mid_flat_times acc' = mid_flat_times acc @ [exp_time (ffs ! h), exp_time (ffs ! l)]
          else \<exists>m mid_f.
                 mid_exp_i (channel_medians 0 ffs) = Inr m \<and>
                 cds0 (ffs ! m) = Inr mid_f \<and>
                 mid_flats acc' = mid_flats acc @ [mid_f] \<and>
                 mid_flat_times acc' = mid_flat_times acc @ [exp_time (ffs ! m)]))) \<and>
   (ptc_channel env facc c st = Inr st' \<longrightarrow>
      (\<exists>noise_floor model_fit.
         fit env (filter (\<lambda>s. s < 15000) (med_sig facc ! c))
           (map (\<lambda>x. x - noise_floor)
              (map snd (filter (\<lambda>(s, v). s < 15000) (zip (med_sig facc ! c) (var facc ! c))))) =
         Inr model_fit)) \<and>
   mask_select (map (\<lambda>s. s < 15000) signal) signal = filter (\<lambda>s. s < 15000) (signal :: real list) \<and>
   15000 \<notin> set (mask_select (map (\<lambda>s. s < 15000) signal) signal)"
proof (intro conjI impI)
  show "mid_exp_i medians = Inr i \<longleftrightarrow>
      i < length medians \<and> 5000 < medians ! i \<and> medians ! i < 15000 \<and>
      (\<forall>j<i. \<not> (5000 < medians ! j \<and> medians ! j < 15000))"
    by (rule mid_exp_i_Inr)
next
  assume a: "flat_gain env prefix g acc = Inr acc'"
  show "\<exists>ffs. load_by_file_prefix env (prefix @ ''_flat_'' @ g) = Inr ffs \<and>
         (if g = ''hdr''
          then \<exists>h l mid_h mid_l.
                 mid_exp_i (channel_medians 0 ffs) = Inr h \<and>
                 mid_exp_i (channel_medians 1 ffs) = Inr l \<and>
                 cds_high0 (ffs ! h) = Inr mid_h \<and> cds_low0 (ffs ! l) = Inr mid_l \<and>
                 mid_flats acc' = mid_flats acc @ [mid_h, mid_l] \<and>
                 mid_flat_times acc' = mid_flat_times acc @ [exp_time (ffs ! h), exp_time (ffs ! l)]
          else \<exists>m mid_f.
                 mid_exp_i (channel_medians 0 ffs) = Inr m \<and>
                 cds0 (ffs ! m) = Inr mid_f \<and>
                 mid_flats acc' = mid_flats acc @ [mid_f] \<and>
                 mid_flat_times acc' = mid_flat_times acc @ [exp_time (ffs ! m)])"
  proof (cases "g = ''hdr''")
    case True
    from a [unfolded True] show ?thesis
      by (rule flat_gain_hdr_Inr) (simp add: True)
  next
    case False
    from a False show ?thesis
      by (rule flat_gain_mono_Inr) (simp add: False)
  qed
next
  assume "ptc_channel env facc c st = Inr st'"
  then show "\<exists>noise_floor model_fit.
         fit env (filter (\<lambda>s. s < 15000) (med_sig facc ! c))
           (map (\<lambda>x. x - noise_floor)
              (map snd (filter (\<lambda>(s, v). s < 15000) (zip (med_sig facc ! c) (var facc ! c))))) =
         Inr model_fit"
    by (rule ptc_channel_fit)
qed (simp_all add: mask_select_filter)

theorem mid_range_and_unsaturated_are_strict_witness:
  "mid_exp_i [1000, 5000, 6000, 15000] = Inr 2 \<and>
   mid_exp_i [5000, 15000] = Inl IndexError \<and>
   flat_gain sample_env ''data/cam_det'' ''hdr'' no_flats = Inr sample_flats_hdr \<and>
   mid_flat_times sample_flats_hdr = [2, 2] \<and>
   ptc_channel sample_env sample_flats 2 sample_products =
     Inr \<lparr>read_noise = [''high'' \<mapsto> 8], det_gain = [''high'' \<mapsto> 2],
          dark_current = [''high'' \<mapsto> 2], well_depth = [''high'' \<mapsto> 200], pages = []\<rparr> \<and>
   (\<exists>noise_floor model_fit.
      fit sample_env (filter (\<lambda>s. s < 15000) (med_sig sample_flats ! 2))
        (map (\<lambda>x. x - noise_floor)
           (map snd (filter (\<lambda>(s, v). s < 15000)
              (zip (med_sig sample_flats ! 2) (var sample_flats ! 2))))) = Inr model_fit) \<and>
   mask_select (map (\<lambda>s. s < 15000) [1000, 15000, 20000 :: real]) [1000, 15000, 20000] = [1000 :: real]"
proof -
  note t = mid_range_and_unsaturated_are_strict
             [where medians = "[1000, 5000, 6000, 15000]" and i = 2 and env = sample_env
                and prefix = "''data/cam_det''" and g = "''hdr''" and acc = no_flats
                and acc' = sample_flats_hdr and facc = sample_flats and c = 2
                and st = sample_products and signal = "[1000, 15000, 20000]"]
  from t have "mid_exp_i [1000, 5000, 6000, 15000] = Inr 2 \<longleftrightarrow>
      2 < length [1000, 5000, 6000, 15000 :: real] \<and> 5000 < [1000, 5000, 6000, 15000 :: real] ! 2 \<and>
      [1000, 5000, 6000, 15000 :: real] ! 2 < 15000 \<and>
      (\<forall>j<2. \<not> (5000 < [1000, 5000, 6000, 15000 :: real] ! j \<and>
                 [1000, 5000, 6000, 15000 :: real] ! j < 15000))"
    by (rule conjunct1)
  then have m: "mid_exp_i [1000, 5000, 6000, 15000] = Inr 2"
    by (simp add: less_2_cases_iff)
  from t sample_ptc_channel
  have f: "\<exists>noise_floor model_fit.
      fit sample_env (filter (\<lambda>s. s < 15000) (med_sig sample_flats ! 2))
        (map (\<lambda>x. x - noise_floor)
           (map snd (filter (\<lambda>(s, v). s < 15000)
              (zip (med_sig sample_flats ! 2) (var sample_flats ! 2))))) = Inr model_fit"
    by blast
  have b: "mid_exp_i [5000, 15000] = Inl IndexError"
    by (simp add: mid_exp_i_def np_where_def item_def)
  have s: "mask_select (map (\<lambda>s. s < 15000) [1000, 15000, 20000 :: real]) [1000, 15000, 20000] = [1000 :: real]"
    by (simp add: mask_select_def)
  have mt: "mid_flat_times sample_flats_hdr = [2, 2]"
    by (simp add: sample_flats_hdr_def)
  from m b sample_flat_gain_hdr mt sample_ptc_channel f s show ?thesis
    by (intro conjI)
qed

subsection \<open>Median frames\<close>

lemma sort_mset_cong: "mset xs = mset ys \<Longrightarrow> sort xs = sort (ys :: real list)"
  by (rule properties_for_sort) simp_all

lemma median_mset_cong: "mset xs = mset ys \<Longrightarrow> median xs = median ys"
  by (simp add: median_def sort_mset_cong [of xs ys])

lemma median_axis0_nth:
  assumes "stack = f # fs" and "r < length f" and "c < length (f ! r)"
  shows "median_axis0 stack ! r ! c = median (map (\<lambda>g. g ! r ! c) stack)"
  using assms by (simp add: median_axis0_def)

lemma median_axis0_perm:
  assumes p: "mset stack' = mset stack"
    and s: "\<forall>g \<in> set stack. \<forall>h \<in> set stack. map length g = map length h"
  shows "median_axis0 stack' = median_axis0 stack"
proof (cases stack)
  case Nil
  with p show ?thesis by simp
next
  case (Cons f fs)
  from p Cons obtain f' fs' where c': "stack' = f' # fs'"
    by (cases stack') auto
  from p have "set stack' = set stack" by (rule mset_eq_setD)
  with c' Cons s have "map length f' = map length f" by auto
  then have len: "length f' = length f" and row: "\<And>r. r < length f \<Longrightarrow> length (f' ! r) = length (f ! r)"
    by (metis length_map, metis length_map nth_map)
  have m: "median (map (\<lambda>g. g ! r ! c) stack') = median (map (\<lambda>g. g ! r ! c) stack)" for r c
    by (rule median_mset_cong) (simp add: p)
  have "median_axis0 stack' =
          map (\<lambda>r. map (\<lambda>c. median (map (\<lambda>g. g ! r ! c) stack')) [0..<length (f' ! r)])
            [0..<length f']"
    by (simp add: median_axis0_def c')
  also have "\<dots> =
          map (\<lambda>r. map (\<lambda>c. median (map (\<lambda>g. g ! r ! c) stack)) [0..<length (f ! r)])
            [0..<length f]"
    by (simp add: len row m cong: map_cong)
  also have "\<dots> = median_axis0 stack"
    by (simp add: median_axis0_def Cons)
  finally show ?thesis .
qed

lemma sort_Nil_iff: "sort xs = [] \<longleftrightarrow> (xs :: real list) = []"
  by (metis length_sort length_0_conv)

lemma median_even:
  "xs \<noteq> [] \<Longrightarrow> even (length xs) \<Longrightarrow>
     median xs = (sort xs ! (length xs div 2 - 1) + sort xs ! (length xs div 2)) / 2"
  by (auto simp: median_def Let_def sort_Nil_iff)

lemma median_odd: "odd (length xs) \<Longrightarrow> median xs = sort xs ! (length xs div 2)"
  by (auto simp: median_def Let_def sort_Nil_iff)

lemma np_stack_Inr: "np_stack fs = Inr gs \<Longrightarrow> gs = fs \<and> fs \<noteq> []"
  by (auto simp: np_stack_def split: list.splits if_splits)

lemma bias_channels_frames:
  "bias_channels bifr = Inr chs \<Longrightarrow>
     map (fst \<circ> snd) chs =
       (case cds_frames bifr of
          Dual hs ls \<Rightarrow> [median_axis0 hs, median_axis0 ls]
        | Mono fs \<Rightarrow> [median_axis0 fs])"
  by (auto simp: bias_channels_def split: if_splits chan.splits)

lemma dark_median_frames_Inr:
  assumes "dark_median_frames mode stacks = Inr frames"
  shows "frames =
           [(''short low-gain'', snd (dark_times mode), median_axis0 (short_low stacks)),
            (''short high-gain'', snd (dark_times mode), median_axis0 (short_high stacks)),
            (''long low-gain'', fst (dark_times mode), median_axis0 (long_low stacks)),
            (''long high-gain'', fst (dark_times mode), median_axis0 (long_high stacks))]"
    and "short_low stacks \<noteq> []" and "short_high stacks \<noteq> []"
    and "long_low stacks \<noteq> []" and "long_high stacks \<noteq> []"
  using assms by (auto simp: dark_median_frames_def and_then_Inr dest!: np_stack_Inr)

lemma sample_bias_channels:
  "bias_channels sample_bias_hdr =
     Inr [(''high (dual-gain)'', [[1, 2]], 256), (''low (dual-gain)'', [[1, 2]], 16)]"
  by (simp add: bias_channels_def sample_bias_hdr_def median_axis0_def median_def)

lemma replicate_9: "replicate 9 x = [x, x, x, x, x, x, x, x, x]"
  by (simp add: eval_nat_numeral)

lemma sample_median_frame: "median_axis0 (replicate 9 sample_frame) = sample_frame"
  by (simp add: replicate_9 median_axis0_def median_def sample_frame_def)

lemma sample_dark_median_frames:
  "dark_median_frames ''FUVdark'' sample_stacks =
     Inr [(''short low-gain'', 9, sample_frame), (''short high-gain'', 9, sample_frame),
          (''long low-gain'', 900, sample_frame), (''long high-gain'', 900, sample_frame)]"
  by (simp add: dark_median_frames_def sample_stacks_def np_stack_def dark_times_def
      replicate_9 median_axis0_def median_def sample_frame_def)

text \<open>
  C8. The median frame of a non-empty stack of frames of one shape has that shape, and
  each of its pixels is the median of that pixel over the stack; it does not depend on
  the order of the frames. The median of an even number of values is the mean of the two
  middle values of the sorted data, that of an odd number is the middle value. The bias
  and the dark analysis build their median frames this way.
\<close>

theorem median_frame_is_elementwise_median:
  "(r < length f \<and> c < length (f ! r) \<longrightarrow>
      median_axis0 (f # fs) ! r ! c = median (map (\<lambda>g. g ! r ! c) (f # fs))) \<and>
   map length (median_axis0 (f # fs)) = map length f \<and>
   (mset stack' = mset stack \<and>
    (\<forall>g \<in> set stack. \<forall>h \<in> set stack. map length g = map length h) \<longrightarrow>
      median_axis0 stack' = median_axis0 stack) \<and>
   (mset xs = mset ys \<longrightarrow> median xs = median ys) \<and>
   (zs \<noteq> [] \<and> even (length zs) \<longrightarrow>
      median zs = (sort zs ! (length zs div 2 - 1) + sort zs ! (length zs div 2)) / 2) \<and>
   (odd (length zs) \<longrightarrow> median zs = sort zs ! (length zs div 2)) \<and>
   (bias_channels bifr = Inr chs \<longrightarrow>
      map (fst \<circ> snd) chs =
        (case cds_frames bifr of
           Dual hs ls \<Rightarrow> [median_axis0 hs, median_axis0 ls]
         | Mono ms \<Rightarrow> [median_axis0 ms])) \<and>
   (dark_median_frames mode stacks = Inr frames \<longrightarrow>
      map (snd \<circ> snd) frames =
        [median_axis0 (short_low stacks), median_axis0 (short_high stacks),
         median_axis0 (long_low stacks), median_axis0 (long_high stacks)])"
proof (intro conjI impI)
  assume "r < length f \<and> c < length (f ! r)"
  then show "median_axis0 (f # fs) ! r ! c = median (map (\<lambda>g. g ! r ! c) (f # fs))"
    by (simp add: median_axis0_nth [of "f # fs" f fs])
next
  show "map length (median_axis0 (f # fs)) = map length f"
    by (rule nth_equalityI) (simp_all add: median_axis0_def)
next
  assume "mset stack' = mset stack \<and>
    (\<forall>g \<in> set stack. \<forall>h \<in> set stack. map length g = map length h)"
  then have "mset stack' = mset stack"
    and "\<forall>g \<in> set stack. \<forall>h \<in> set stack. map length g = map length h"
    by blast+
  then show "median_axis0 stack' = median_axis0 stack"
    by (rule median_axis0_perm)
next
  assume "mset xs = mset ys"
  then show "median xs = median ys" by (rule median_mset_cong)
next
  assume "zs \<noteq> [] \<and> even (length zs)"
  then show "median zs = (sort zs ! (length zs div 2 - 1) + sort zs ! (length zs div 2)) / 2"
    by (simp add: median_even)
next
  assume "odd (length zs)"
  then show "median zs = sort zs ! (length zs div 2)" by (rule median_odd)
next
  assume "bias_channels bifr = Inr chs"
  then show "map (fst \<circ> snd) chs =
        (case cds_frames bifr of
           Dual hs ls \<Rightarrow> [median_axis0 hs, median_axis0 ls]
         | Mono ms \<Rightarrow> [median_axis0 ms])"
    by (rule bias_channels_frames)
next
  assume "dark_median_frames mode stacks = Inr frames"
  from dark_median_frames_Inr(1) [OF this]
  show "map (snd \<circ> snd) frames =
        [median_axis0 (short_low stacks), median_axis0 (short_high stacks),
         median_axis0 (long_low stacks), median_axis0 (long_high stacks)]"
    by simp
qed

theorem median_frame_is_elementwise_median_witness:
  "median_axis0 [[[1, 4]], [[3, 2]], [[5, 0]], [[7, 6]]] = [[4, 3]] \<and>
   mset [[[7, 6]], [[5, 0]], [[3, 2]], [[1, 4 :: real]]] = mset [[[1, 4]], [[3, 2]], [[5, 0]], [[7, 6]]] \<and>
   median_axis0 [[[7, 6]], [[5, 0]], [[3, 2]], [[1, 4]]] =
     median_axis0 [[[1, 4]], [[3, 2]], [[5, 0]], [[7, 6]]] \<and>
   median [7, 1, 5, 3] = (3 + 5) / 2 \<and>
   median [5, 1, 3] = 3 \<and>
   bias_channels sample_bias_hdr =
     Inr [(''high (dual-gain)'', [[1, 2]], 256), (''low (dual-gain)'', [[1, 2]], 16)] \<and>
   dark_median_frames ''FUVdark'' sample_stacks =
     Inr [(''short low-gain'', 9, sample_frame), (''short high-gain'', 9, sample_frame),
          (''long low-gain'', 900, sample_frame), (''long high-gain'', 900, sample_frame)]"
proof -
  note t = median_frame_is_elementwise_median
             [where stack' = "[[[7, 6]], [[5, 0]], [[3, 2]], [[1, 4]]]"
                and stack = "[[[1, 4]], [[3, 2]], [[5, 0]], [[7, 6]]]"
                and zs = "[7, 1, 5, 3]"]
  have m: "mset [[[7, 6]], [[5, 0]], [[3, 2]], [[1, 4 :: real]]] =
           mset [[[1, 4]], [[3, 2]], [[5, 0]], [[7, 6]]]"
    by simp
  have "median_axis0 [[[7, 6]], [[5, 0]], [[3, 2]], [[1, 4]]] =
        median_axis0 [[[1, 4]], [[3, 2]], [[5, 0]], [[7, 6]]]"
    by (rule t [THEN conjunct2, THEN conjunct2, THEN conjunct1, THEN mp]) (simp add: m)
  moreover have "median [7, 1, 5, 3] = (3 + 5) / 2"
    using t [THEN conjunct2, THEN conjunct2, THEN conjunct2, THEN conjunct2, THEN conjunct1]
    by simp
  moreover have "median_axis0 [[[1, 4]], [[3, 2]], [[5, 0]], [[7, 6]]] = [[4, 3]]"
    by (simp add: median_axis0_def median_def)
  moreover have "median [5, 1, 3] = 3"
    by (simp add: median_def)
  ultimately show ?thesis
    using m sample_bias_channels sample_dark_median_frames by (intro conjI)
qed

subsection \<open>Pages and the dark analysis\<close>

lemma savepage_Inr:
  "savepage env p st = Inr st' \<longleftrightarrow> savefig env p = None \<and> st' = st\<lparr>pages := pages st @ [p]\<rparr>"
  by (auto simp: savepage_def split: option.splits)

lemma min_max_Inr: "min_max xs = Inr mm \<Longrightarrow> xs \<noteq> []"
  by (auto simp: min_max_def py_min_def and_then_Inr split: list.splits)

lemma hist_page_Inr:
  assumes "hist_page env data title st = Inr st'"
  shows "st' = st\<lparr>pages := pages st @ [HistPage title data]\<rparr> \<and> flatten data \<noteq> []"
  using assms
  by (auto simp: hist_page_def and_then_Inr savepage_Inr Let_def dest: min_max_Inr
      split: if_splits prod.splits)

lemma median_const:
  assumes "xs \<noteq> []" and "\<forall>x \<in> set xs. x = V"
  shows "median xs = V"
proof -
  have "xs = replicate (length xs) V"
    using assms(2) by (simp add: replicate_length_same)
  then obtain n where xs: "xs = replicate n V" ..
  with assms(1) have n: "0 < n" by auto
  have s: "sort xs = xs"
    by (rule sorted_sort_id) (simp add: xs sorted_replicate)
  have "n div 2 < n" using n by simp
  moreover have "n div 2 - 1 < n" using n by arith
  ultimately show ?thesis
    using n by (simp add: median_def s Let_def) (simp add: xs)
qed

lemma median_axis0_const:
  assumes ne: "stack \<noteq> []"
    and sh: "\<forall>g \<in> set stack. \<forall>h \<in> set stack. shape g = shape h"
    and v: "\<forall>f \<in> set stack. \<forall>row \<in> set f. \<forall>p \<in> set row. p = V"
  shows "\<forall>p \<in> set (flatten (median_axis0 stack)). p = V"
proof -
  from ne obtain f fs where st: "stack = f # fs" by (cases stack) auto
  have px: "g ! r ! c = V" if "g \<in> set stack" "r < length f" "c < length (f ! r)" for g r c
  proof -
    from sh that(1) st have "map length g = map length f" by (auto simp: shape_def)
    then have "length g = length f" and "length (g ! r) = length (f ! r)"
      using that(2) by (metis length_map, metis length_map nth_map)
    with that v show ?thesis by (metis nth_mem)
  qed
  have "median (map (\<lambda>g. g ! r ! c) stack) = V" if "r < length f" "c < length (f ! r)" for r c
    by (rule median_const) (use ne px that in auto)
  then show ?thesis
    by (auto simp: flatten_def median_axis0_def st)
qed

lemma np_stack_shape:
  "np_stack fs = Inr gs \<Longrightarrow> \<forall>g \<in> set fs. \<forall>h \<in> set fs. shape g = shape h"
  by (auto simp: np_stack_def split: list.splits if_splits)

lemma dark_median_frames_shape:
  assumes "dark_median_frames mode stacks = Inr frames"
  shows "\<forall>g \<in> set (long_low stacks). \<forall>h \<in> set (long_low stacks). shape g = shape h"
    and "\<forall>g \<in> set (long_high stacks). \<forall>h \<in> set (long_high stacks). shape g = shape h"
  using assms by (auto simp: dark_median_frames_def and_then_Inr dest!: np_stack_shape)

lemma dark_frame_page_Inr:
  assumes "dark_frame_page env mode (name, t, med_dark) st = Inr st'"
  shows "flatten med_dark \<noteq> []"
    and "read_noise st' = read_noise st" and "det_gain st' = det_gain st"
    and "well_depth st' = well_depth st"
    and "dark_current st' =
           (if mode = ''FUVdark'' \<and> name = ''long low-gain''
            then (dark_current st)(''low (dual-gain)'' \<mapsto> median (flatten med_dark) / real t)
            else if mode = ''FUVdark'' \<and> name = ''long high-gain''
            then (dark_current st)(''high (dual-gain)'' \<mapsto> median (flatten med_dark) / real t)
            else dark_current st)"
    and "pages st' = pages st @ [HistPage (''Dark frames - '' @ mode @ '' mode - '' @ name @ '' frame'') med_dark]"
  using assms
  by (auto simp: dark_frame_page_def and_then_Inr Let_def dest!: hist_page_Inr split: if_splits)

lemma dark_frames_products_Inr:
  assumes "dark_frames_products env mode stacks st = Inr st'"
  shows "read_noise st' = read_noise st" and "det_gain st' = det_gain st"
    and "well_depth st' = well_depth st"
    and "dark_current st' =
           (if mode = ''FUVdark''
            then (dark_current st)
                   (''low (dual-gain)'' \<mapsto> median (flatten (median_axis0 (long_low stacks))) / 900,
                    ''high (dual-gain)'' \<mapsto> median (flatten (median_axis0 (long_high stacks))) / 900)
            else dark_current st)"
    and "flatten (median_axis0 (long_low stacks)) \<noteq> []"
    and "flatten (median_axis0 (long_high stacks)) \<noteq> []"
proof -
  from assms obtain frames st4 where
    fr: "dark_median_frames mode stacks = Inr frames" and
    lp: "for_each (dark_frame_page env mode) frames st = Inr st4" and
    sv: "savepage env (DarkTimeSeries mode) st4 = Inr st'"
    by (auto simp: dark_frames_products_def and_then_Inr)
  note frames = dark_median_frames_Inr(1) [OF fr]
  from lp [unfolded frames] obtain st1 st2 st3 where
    s1: "dark_frame_page env mode
           (''short low-gain'', snd (dark_times mode), median_axis0 (short_low stacks)) st = Inr st1" and
    s2: "dark_frame_page env mode
           (''short high-gain'', snd (dark_times mode), median_axis0 (short_high stacks)) st1 = Inr st2" and
    s3: "dark_frame_page env mode
           (''long low-gain'', fst (dark_times mode), median_axis0 (long_low stacks)) st2 = Inr st3" and
    s4: "dark_frame_page env mode
           (''long high-gain'', fst (dark_times mode), median_axis0 (long_high stacks)) st3 = Inr st4"
    by (auto split: sum.splits)
  note d1 = dark_frame_page_Inr [OF s1] and d2 = dark_frame_page_Inr [OF s2]
    and d3 = dark_frame_page_Inr [OF s3] and d4 = dark_frame_page_Inr [OF s4]
  from sv have st': "st' = st4\<lparr>pages := pages st4 @ [DarkTimeSeries mode]\<rparr>"
    by (simp add: savepage_Inr)
  show "read_noise st' = read_noise st" by (simp add: st' d1(2) d2(2) d3(2) d4(2))
  show "det_gain st' = det_gain st" by (simp add: st' d1(3) d2(3) d3(3) d4(3))
  show "well_depth st' = well_depth st" by (simp add: st' d1(4) d2(4) d3(4) d4(4))
  show "flatten (median_axis0 (long_low stacks)) \<noteq> []" by (rule d3(1))
  show "flatten (median_axis0 (long_high stacks)) \<noteq> []" by (rule d4(1))
  show "dark_current st' =
           (if mode = ''FUVdark''
            then (dark_current st)
                   (''low (dual-gain)'' \<mapsto> median (flatten (median_axis0 (long_low stacks))) / 900,
                    ''high (dual-gain)'' \<mapsto> median (flatten (median_axis0 (long_high stacks))) / 900)
            else dark_current st)"
    by (simp add: st' d1(5) d2(5) d3(5) d4(5) dark_times_def)
qed

lemma load_dark_pair_Inr:
  assumes "load_dark_pair env ps acc = Inr acc'"
  shows "map Inr (long_low acc') = map Inr (long_low acc) @ [and_then (load_first env (fst ps)) cds_low0]"
    and "map Inr (long_high acc') = map Inr (long_high acc) @ [and_then (load_first env (fst ps)) cds_high0]"
    and "map Inr (short_low acc') = map Inr (short_low acc) @ [and_then (load_first env (snd ps)) cds_low0]"
    and "map Inr (short_high acc') = map Inr (short_high acc) @ [and_then (load_first env (snd ps)) cds_high0]"
  using assms by (auto simp: load_dark_pair_def and_then_Inr)

lemma load_dark_loop_Inr:
  assumes "for_each (load_dark_pair env) pss acc = Inr stacks"
  shows "map Inr (long_low stacks) =
           map Inr (long_low acc) @ map (\<lambda>ps. and_then (load_first env (fst ps)) cds_low0) pss \<and>
         map Inr (long_high stacks) =
           map Inr (long_high acc) @ map (\<lambda>ps. and_then (load_first env (fst ps)) cds_high0) pss \<and>
         map Inr (short_low stacks) =
           map Inr (short_low acc) @ map (\<lambda>ps. and_then (load_first env (snd ps)) cds_low0) pss \<and>
         map Inr (short_high stacks) =
           map Inr (short_high acc) @ map (\<lambda>ps. and_then (load_first env (snd ps)) cds_high0) pss"
  using assms
proof (induction pss arbitrary: acc)
  case Nil
  then show ?case by simp
next
  case (Cons ps pss)
  from Cons.prems obtain acc1 where
    a: "load_dark_pair env ps acc = Inr acc1" and
    b: "for_each (load_dark_pair env) pss acc1 = Inr stacks"
    by (auto split: sum.splits)
  from Cons.IH [OF b] load_dark_pair_Inr [OF a] show ?case by simp
qed

lemma length_dark_prefixes: "length (dark_prefixes prefix mode) = 9"
  by (simp add: dark_prefixes_def upt_3 upt_9)

lemma load_dark_frames_Inr:
  assumes "load_dark_frames env prefix mode = Inr stacks"
  shows "map Inr (long_low stacks) =
           map (\<lambda>ps. and_then (load_first env (fst ps)) cds_low0) (dark_prefixes prefix mode)"
    and "map Inr (long_high stacks) =
           map (\<lambda>ps. and_then (load_first env (fst ps)) cds_high0) (dark_prefixes prefix mode)"
    and "length (long_low stacks) = 9" and "length (long_high stacks) = 9"
proof -
  note l = load_dark_loop_Inr [OF assms [unfolded load_dark_frames_def]]
  from l show a: "map Inr (long_low stacks) =
           map (\<lambda>ps. and_then (load_first env (fst ps)) cds_low0) (dark_prefixes prefix mode)"
    and b: "map Inr (long_high stacks) =
           map (\<lambda>ps. and_then (load_first env (fst ps)) cds_high0) (dark_prefixes prefix mode)"
    by simp_all
  from arg_cong [OF a, of length] show "length (long_low stacks) = 9"
    by (simp add: length_dark_prefixes)
  from arg_cong [OF b, of length] show "length (long_high stacks) = 9"
    by (simp add: length_dark_prefixes)
qed

lemma sample_env_fields:
  "listdir sample_env = (\<lambda>d. Inr sample_files)"
  "Exposure sample_env = (\<lambda>p. None)"
  "load_by_file_prefix sample_env = sample_load"
  "git_rev_parse sample_env = None"
  "PdfPages sample_env = (\<lambda>p. None)"
  "fit sample_env = (\<lambda>sig v. Inr \<lparr>amplitude = 1 / 2, converged = True\<rparr>)"
  "savefig sample_env = (\<lambda>p. None)"
  by (simp_all add: sample_env_def)

lemmas sample_dark_evals = load_dark_frames_def dark_prefixes_def dark_times_def
  load_dark_pair_def load_first_def cds_high0_def cds_low0_def sample_dark_def item_def
  sample_env_fields sample_load_def upt_3 upt_9 str_nat.simps digit_def

lemma sample_load_dark_frames:
  "load_dark_frames sample_env ''data/cam_det'' ''FUVdark'' = Inr sample_stacks"
  "load_dark_frames sample_env ''data/cam_det'' ''NUVdark'' = Inr sample_stacks"
  "load_dark_frames sample_env ''data/cam_det'' ''NUVguidingdark'' = Inr sample_stacks"
  by (simp_all add: sample_dark_evals sample_stacks_def replicate_9)

lemmas sample_page_evals = dark_frame_page_def min_max_def py_min_def py_max_def
  flatten_def sample_frame_def median_def hist_page_def savepage_def sample_env_fields Let_def

lemma sample_dark_frames_products:
  "dark_frames_products sample_env mode sample_stacks st =
     Inr (st\<lparr>dark_current :=
               (if mode = ''FUVdark''
                then (dark_current st)(''low (dual-gain)'' \<mapsto> 1 / 200, ''high (dual-gain)'' \<mapsto> 1 / 200)
                else dark_current st),
             pages := pages st @ sample_dark_pages mode\<rparr>)"
proof -
  have f: "dark_median_frames mode sample_stacks =
     Inr [(''short low-gain'', snd (dark_times mode), sample_frame),
          (''short high-gain'', snd (dark_times mode), sample_frame),
          (''long low-gain'', fst (dark_times mode), sample_frame),
          (''long high-gain'', fst (dark_times mode), sample_frame)]"
    by (simp add: dark_median_frames_def sample_stacks_def np_stack_def
      replicate_9 median_axis0_def median_def sample_frame_def)
  show ?thesis
    by (simp add: dark_frames_products_def f sample_page_evals sample_dark_pages_def dark_times_def)
qed

lemma sample_dark_section:
  "dark_section sample_env ''data/cam_det'' st =
     Inr (st\<lparr>dark_current :=
               (dark_current st)(''low (dual-gain)'' \<mapsto> 1 / 200, ''high (dual-gain)'' \<mapsto> 1 / 200),
             pages := pages st @ sample_dark_pages ''FUVdark'' @ sample_dark_pages ''NUVdark'' @
                      sample_dark_pages ''NUVguidingdark''\<rparr>)"
  by (simp add: dark_section_def dark_mode_def sample_load_dark_frames sample_dark_frames_products)

lemma dark_mode_Inr:
  assumes "dark_mode env prefix mode st = Inr st'"
  obtains stacks where "load_dark_frames env prefix mode = Inr stacks"
    and "dark_frames_products env mode stacks st = Inr st'"
  using assms by (auto simp: dark_mode_def and_then_Inr)

lemma const_frames_dark_current:
  assumes "dark_frames_products env ''FUVdark'' stacks st = Inr st'"
  shows "(\<forall>f \<in> set (long_low stacks). \<forall>row \<in> set f. \<forall>p \<in> set row. p = V) \<longrightarrow>
           dark_current st' ''low (dual-gain)'' = Some (V / 900)"
    and "(\<forall>f \<in> set (long_high stacks). \<forall>row \<in> set f. \<forall>p \<in> set row. p = V) \<longrightarrow>
           dark_current st' ''high (dual-gain)'' = Some (V / 900)"
proof -
  from assms obtain frames where fr: "dark_median_frames ''FUVdark'' stacks = Inr frames"
    by (auto simp: dark_frames_products_def and_then_Inr)
  note p = dark_frames_products_Inr [OF assms]
  show "(\<forall>f \<in> set (long_low stacks). \<forall>row \<in> set f. \<forall>p \<in> set row. p = V) \<longrightarrow>
           dark_current st' ''low (dual-gain)'' = Some (V / 900)"
  proof
    assume v: "\<forall>f \<in> set (long_low stacks). \<forall>row \<in> set f. \<forall>p \<in> set row. p = V"
    have "median (flatten (median_axis0 (long_low stacks))) = V"
      by (rule median_const [OF p(5)])
         (rule median_axis0_const [OF dark_median_frames_Inr(4) [OF fr]
            dark_median_frames_shape(1) [OF fr] v])
    then show "dark_current st' ''low (dual-gain)'' = Some (V / 900)"
      by (simp add: p(4))
  qed
  show "(\<forall>f \<in> set (long_high stacks). \<forall>row \<in> set f. \<forall>p \<in> set row. p = V) \<longrightarrow>
           dark_current st' ''high (dual-gain)'' = Some (V / 900)"
  proof
    assume v: "\<forall>f \<in> set (long_high stacks). \<forall>row \<in> set f. \<forall>p \<in> set row. p = V"
    have "median (flatten (median_axis0 (long_high stacks))) = V"
      by (rule median_const [OF p(6)])
         (rule median_axis0_const [OF dark_median_frames_Inr(5) [OF fr]
            dark_median_frames_shape(2) [OF fr] v])
    then show "dark_current st' ''high (dual-gain)'' = Some (V / 900)"
      by (simp add: p(4))
  qed
qed

lemma dark_section_Inr:
  assumes "dark_section env prefix st = Inr st'"
  obtains st1 st2 where "dark_mode env prefix ''FUVdark'' st = Inr st1"
    and "dark_mode env prefix ''NUVdark'' st1 = Inr st2"
    and "dark_mode env prefix ''NUVguidingdark'' st2 = Inr st'"
  using assms by (auto simp: dark_section_def split: sum.splits)

lemma sample_dark_mode_FUV:
  "dark_mode sample_env ''data/cam_det'' ''FUVdark'' empty_products =
     Inr (empty_products\<lparr>dark_current :=
            [''low (dual-gain)'' \<mapsto> 1 / 200, ''high (dual-gain)'' \<mapsto> 1 / 200],
          pages := sample_dark_pages ''FUVdark''\<rparr>)"
  by (simp add: dark_mode_def sample_load_dark_frames sample_dark_frames_products empty_products_def)

text \<open>
  What a mode of the dark analysis that returns has written. Of the three dark modes only
  \<^verbatim>\<open>FUVdark\<close> writes a dark current, and it writes one entry for each dual-gain
  channel: the median of the median frame of the nine long exposures of that channel,
  divided by the long exposure time of 900 s. The nine frames are the first frame of the
  first exposure loaded for each long prefix. When every pixel of these frames has one
  value \<open>V\<close> the entry is \<open>V / 900\<close>. The modes \<^verbatim>\<open>NUVdark\<close> and
  \<^verbatim>\<open>NUVguidingdark\<close> leave the dictionary as it is.
\<close>

lemma dark_mode_Inr_dark_current:
  "(dark_mode env prefix mode st = Inr st' \<longrightarrow>
      (\<exists>stacks.
         load_dark_frames env prefix mode = Inr stacks \<and>
         length (long_low stacks) = 9 \<and> length (long_high stacks) = 9 \<and>
         map Inr (long_low stacks) =
           map (\<lambda>ps. and_then (load_first env (fst ps)) cds_low0) (dark_prefixes prefix mode) \<and>
         map Inr (long_high stacks) =
           map (\<lambda>ps. and_then (load_first env (fst ps)) cds_high0) (dark_prefixes prefix mode) \<and>
         dark_current st' =
           (if mode = ''FUVdark''
            then (dark_current st)
                   (''low (dual-gain)'' \<mapsto> median (flatten (median_axis0 (long_low stacks))) / 900,
                    ''high (dual-gain)'' \<mapsto> median (flatten (median_axis0 (long_high stacks))) / 900)
            else dark_current st) \<and>
         (mode = ''FUVdark'' \<and>
          (\<forall>f \<in> set (long_low stacks). \<forall>row \<in> set f. \<forall>p \<in> set row. p = V) \<longrightarrow>
            dark_current st' ''low (dual-gain)'' = Some (V / 900)) \<and>
         (mode = ''FUVdark'' \<and>
          (\<forall>f \<in> set (long_high stacks). \<forall>row \<in> set f. \<forall>p \<in> set row. p = V) \<longrightarrow>
            dark_current st' ''high (dual-gain)'' = Some (V / 900)))) \<and>
   (dark_section env prefix st = Inr st'' \<longrightarrow>
      (\<exists>stacks.
         load_dark_frames env prefix ''FUVdark'' = Inr stacks \<and>
         dark_current st'' =
           (dark_current st)
             (''low (dual-gain)'' \<mapsto> median (flatten (median_axis0 (long_low stacks))) / 900,
              ''high (dual-gain)'' \<mapsto> median (flatten (median_axis0 (long_high stacks))) / 900)))"
proof (intro conjI impI)
  assume "dark_mode env prefix mode st = Inr st'"
  then obtain stacks where l: "load_dark_frames env prefix mode = Inr stacks"
    and p: "dark_frames_products env mode stacks st = Inr st'"
    by (rule dark_mode_Inr)
  note ld = load_dark_frames_Inr [OF l] and fp = dark_frames_products_Inr [OF p]
  have c: "mode = ''FUVdark'' \<and>
          (\<forall>f \<in> set (long_low stacks). \<forall>row \<in> set f. \<forall>p \<in> set row. p = V) \<longrightarrow>
            dark_current st' ''low (dual-gain)'' = Some (V / 900)"
     "mode = ''FUVdark'' \<and>
          (\<forall>f \<in> set (long_high stacks). \<forall>row \<in> set f. \<forall>p \<in> set row. p = V) \<longrightarrow>
            dark_current st' ''high (dual-gain)'' = Some (V / 900)"
    using const_frames_dark_current [of env stacks st st' V] p by blast+
  show "\<exists>stacks.
         load_dark_frames env prefix mode = Inr stacks \<and>
         length (long_low stacks) = 9 \<and> length (long_high stacks) = 9 \<and>
         map Inr (long_low stacks) =
           map (\<lambda>ps. and_then (load_first env (fst ps)) cds_low0) (dark_prefixes prefix mode) \<and>
         map Inr (long_high stacks) =
           map (\<lambda>ps. and_then (load_first env (fst ps)) cds_high0) (dark_prefixes prefix mode) \<and>
         dark_current st' =
           (if mode = ''FUVdark''
            then (dark_current st)
                   (''low (dual-gain)'' \<mapsto> median (flatten (median_axis0 (long_low stacks))) / 900,
                    ''high (dual-gain)'' \<mapsto> median (flatten (median_axis0 (long_high stacks))) / 900)
            else dark_current st) \<and>
         (mode = ''FUVdark'' \<and>
          (\<forall>f \<in> set (long_low stacks). \<forall>row \<in> set f. \<forall>p \<in> set row. p = V) \<longrightarrow>
            dark_current st' ''low (dual-gain)'' = Some (V / 900)) \<and>
         (mode = ''FUVdark'' \<and>
          (\<forall>f \<in> set (long_high stacks). \<forall>row \<in> set f. \<forall>p \<in> set row. p = V) \<longrightarrow>
            dark_current st' ''high (dual-gain)'' = Some (V / 900))"
    by (intro exI [of _ stacks] conjI l ld fp(4) c)
next
  assume "dark_section env prefix st = Inr st''"
  then obtain st1 st2 where
    m1: "dark_mode env prefix ''FUVdark'' st = Inr st1" and
    m2: "dark_mode env prefix ''NUVdark'' st1 = Inr st2" and
    m3: "dark_mode env prefix ''NUVguidingdark'' st2 = Inr st''"
    by (rule dark_section_Inr)
  from m1 obtain stacks where l: "load_dark_frames env prefix ''FUVdark'' = Inr stacks"
    and p1: "dark_frames_products env ''FUVdark'' stacks st = Inr st1"
    by (rule dark_mode_Inr)
  from m2 obtain stacks2 where p2: "dark_frames_products env ''NUVdark'' stacks2 st1 = Inr st2"
    by (rule dark_mode_Inr)
  from m3 obtain stacks3 where p3: "dark_frames_products env ''NUVguidingdark'' stacks3 st2 = Inr st''"
    by (rule dark_mode_Inr)
  have "dark_current st'' = dark_current st1"
    using dark_frames_products_Inr(4) [OF p2] dark_frames_products_Inr(4) [OF p3] by simp
  with dark_frames_products_Inr(4) [OF p1] l
  show "\<exists>stacks.
         load_dark_frames env prefix ''FUVdark'' = Inr stacks \<and>
         dark_current st'' =
           (dark_current st)
             (''low (dual-gain)'' \<mapsto> median (flatten (median_axis0 (long_low stacks))) / 900,
              ''high (dual-gain)'' \<mapsto> median (flatten (median_axis0 (long_high stacks))) / 900)"
    by auto
qed

lemma dark_scenario_env_fields:
  "listdir (dark_scenario_env fh fl) = (\<lambda>d. Inr [''cam_det_FUVdark0_900_20240413.fits''])"
  "Exposure (dark_scenario_env fh fl) = (\<lambda>p. None)"
  "load_by_file_prefix (dark_scenario_env fh fl) = dark_scenario_load fh fl"
  "git_rev_parse (dark_scenario_env fh fl) = None"
  "PdfPages (dark_scenario_env fh fl) = (\<lambda>p. None)"
  "savefig (dark_scenario_env fh fl) = (\<lambda>p. None)"
  by (simp_all add: dark_scenario_env_def sample_env_def)

lemmas dark_scenario_evals = load_dark_frames_def dark_prefixes_def dark_times_def
  load_dark_pair_def load_first_def cds_high0_def cds_low0_def dual_dark_def item_def
  dark_scenario_env_fields dark_scenario_load_def FUVdark_long_files_def FUVdark_short_files_def
  upt_3 upt_9 str_nat.simps digit_def

lemma dark_scenario_load_FUV:
  "load_dark_frames (dark_scenario_env fh fl) ''data/cam_det'' ''FUVdark'' =
     Inr \<lparr>short_low = replicate 9 [[2, 3], [4, 6]], short_high = replicate 9 [[1, 2], [3, 5]],
          long_low = replicate 9 fl, long_high = replicate 9 fh\<rparr>"
  by (simp add: dark_scenario_evals replicate_9)

lemma dark_scenario_load_NUV:
  "load_dark_frames (dark_scenario_env fh fl) ''data/cam_det'' ''NUVdark'' = Inr NUV_stacks"
  "load_dark_frames (dark_scenario_env fh fl) ''data/cam_det'' ''NUVguidingdark'' = Inr NUV_stacks"
  by (simp_all add: dark_scenario_evals NUV_stacks_def replicate_9)

lemma median_axis0_replicate_9:
  "median_axis0 (replicate 9 [[a, b], [c, d]]) = [[a, b], [c, d]]"
  by (simp add: median_axis0_def replicate_9 median_def)

lemma np_stack_replicate_9: "np_stack (replicate 9 f) = Inr (replicate 9 f)"
  by (simp add: np_stack_def replicate_9)

lemma dark_median_frames_replicate_9:
  "dark_median_frames mode
     \<lparr>short_low = replicate 9 [[a1, b1], [c1, d1]], short_high = replicate 9 [[a2, b2], [c2, d2]],
      long_low = replicate 9 [[a3, b3], [c3, d3]], long_high = replicate 9 [[a4, b4], [c4, d4]]\<rparr> =
     Inr [(''short low-gain'', snd (dark_times mode), [[a1, b1], [c1, d1]]),
          (''short high-gain'', snd (dark_times mode), [[a2, b2], [c2, d2]]),
          (''long low-gain'', fst (dark_times mode), [[a3, b3], [c3, d3]]),
          (''long high-gain'', fst (dark_times mode), [[a4, b4], [c4, d4]])]"
  by (simp only: dark_median_frames_def dark_stacks.simps np_stack_replicate_9 and_then.simps
      median_axis0_replicate_9)

lemmas dark_page_evals = dark_frame_page_def min_max_def py_min_def py_max_def
  flatten_def median_def hist_page_def savepage_def dark_scenario_env_fields Let_def

lemma dark_scenario_NUV_returns:
  "mode \<noteq> ''FUVdark'' \<Longrightarrow>
   \<exists>st'. dark_frames_products (dark_scenario_env fh fl) mode NUV_stacks st = Inr st'"
  by (simp add: dark_frames_products_def NUV_stacks_def dark_median_frames_replicate_9
      dark_page_evals)

lemma dark_scenario_FUV_nonconstant:
  "\<exists>st'. dark_frames_products (dark_scenario_env [[1, 2], [9, 10]] [[3, 4], [11, 13]]) ''FUVdark''
          \<lparr>short_low = replicate 9 [[2, 3], [4, 6]], short_high = replicate 9 [[1, 2], [3, 5]],
           long_low = replicate 9 [[3, 4], [11, 13]], long_high = replicate 9 [[1, 2], [9, 10]]\<rparr> st =
          Inr st'"
  by (simp add: dark_frames_products_def dark_median_frames_replicate_9 dark_page_evals)

lemma dark_scenario_FUV_half:
  "\<exists>st'. dark_frames_products (dark_scenario_env (const_frame (9 / 2)) (const_frame (9 / 2))) ''FUVdark''
          \<lparr>short_low = replicate 9 [[2, 3], [4, 6]], short_high = replicate 9 [[1, 2], [3, 5]],
           long_low = replicate 9 (const_frame (9 / 2)), long_high = replicate 9 (const_frame (9 / 2))\<rparr> st =
          Inr st'"
  by (simp add: const_frame_def dark_frames_products_def dark_median_frames_replicate_9
      dark_page_evals)

lemma dark_scenario_FUV_integer:
  "dark_frames_products (dark_scenario_env (const_frame 9) (const_frame 9)) ''FUVdark''
          \<lparr>short_low = replicate 9 [[2, 3], [4, 6]], short_high = replicate 9 [[1, 2], [3, 5]],
           long_low = replicate 9 (const_frame 9), long_high = replicate 9 (const_frame 9)\<rparr> st =
     Inl ValueError"
  by (simp add: const_frame_def dark_frames_products_def dark_median_frames_replicate_9
      dark_page_evals)

lemma dark_scenario_FUV_mode:
  assumes "\<And>st. \<exists>st'. dark_frames_products (dark_scenario_env fh fl) ''FUVdark''
             \<lparr>short_low = replicate 9 [[2, 3], [4, 6]], short_high = replicate 9 [[1, 2], [3, 5]],
              long_low = replicate 9 fl, long_high = replicate 9 fh\<rparr> st = Inr st'"
  shows "\<exists>st'. dark_section (dark_scenario_env fh fl) ''data/cam_det'' st = Inr st' \<and>
           dark_current st' =
             (dark_current st)
               (''low (dual-gain)'' \<mapsto> median (flatten (median_axis0 (replicate 9 fl))) / 900,
                ''high (dual-gain)'' \<mapsto> median (flatten (median_axis0 (replicate 9 fh))) / 900)"
proof -
  from assms obtain st1 where
    p1: "dark_frames_products (dark_scenario_env fh fl) ''FUVdark''
             \<lparr>short_low = replicate 9 [[2, 3], [4, 6]], short_high = replicate 9 [[1, 2], [3, 5]],
              long_low = replicate 9 fl, long_high = replicate 9 fh\<rparr> st = Inr st1"
    by blast
  obtain st2 where
    p2: "dark_frames_products (dark_scenario_env fh fl) ''NUVdark'' NUV_stacks st1 = Inr st2"
    using dark_scenario_NUV_returns [of "''NUVdark''" fh fl st1] by auto
  obtain st3 where
    p3: "dark_frames_products (dark_scenario_env fh fl) ''NUVguidingdark'' NUV_stacks st2 = Inr st3"
    using dark_scenario_NUV_returns [of "''NUVguidingdark''" fh fl st2] by auto
  have "dark_section (dark_scenario_env fh fl) ''data/cam_det'' st = Inr st3"
    by (simp add: dark_section_def dark_mode_def dark_scenario_load_FUV dark_scenario_load_NUV
        p1 p2 p3)
  moreover have "dark_current st3 = dark_current st1"
    using dark_frames_products_Inr(4) [OF p2] dark_frames_products_Inr(4) [OF p3] by simp
  ultimately show ?thesis
    using dark_frames_products_Inr(4) [OF p1] by simp
qed

text \<open>
  C3. What the dark analysis writes when it returns is what the claim says: only the mode
  \<^verbatim>\<open>FUVdark\<close> writes, one entry for each dual-gain channel, the median of the whole
  median frame of the nine long exposures divided by 900. The scenario of the claim,
  nine identical long exposures of the constant value \<open>V\<close>, does not return when \<open>V\<close> is
  an integer. The nine exposures are loaded from the nine prefixes that end in
  \<^verbatim>\<open>_900_\<close>, their median frame is the constant frame and line 190 computes \<open>V / 900\<close>
  for the low-gain channel; then \<^verbatim>\<open>hist_page\<close> asks for a histogram of
  \<^verbatim>\<open>int(ceil(V) - floor(V))\<close> bins, which is none. The comment of line 418 says that
  the bins are of size 1, but \<^verbatim>\<open>np.histogram\<close> raises ValueError for no bins, before
  the entry of the high-gain channel is written, and the run ends with that exception.
  With the value \<open>9/2\<close> in place of \<open>9\<close>, and with long frames that are not constant,
  the same run returns with the entries the claim states.
\<close>

theorem constant_integer_dark_frames_raise:
  "load_dark_frames (dark_scenario_env (const_frame 9) (const_frame 9)) ''data/cam_det'' ''FUVdark'' =
     Inr \<lparr>short_low = replicate 9 [[2, 3], [4, 6]], short_high = replicate 9 [[1, 2], [3, 5]],
          long_low = replicate 9 (const_frame 9), long_high = replicate 9 (const_frame 9)\<rparr> \<and>
   median_axis0 (replicate 9 (const_frame 9)) = const_frame 9 \<and>
   median (flatten (const_frame 9)) / 900 = 9 / 900 \<and>
   hist_page (dark_scenario_env (const_frame 9) (const_frame 9)) (const_frame 9)
     ''Dark frames - FUVdark mode - long low-gain frame''
     (empty_products\<lparr>dark_current := [''low (dual-gain)'' \<mapsto> 9 / 900]\<rparr>) = Inl ValueError \<and>
   dark_mode (dark_scenario_env (const_frame 9) (const_frame 9)) ''data/cam_det'' ''FUVdark''
     empty_products = Inl ValueError \<and>
   dark_section (dark_scenario_env (const_frame 9) (const_frame 9)) ''data/cam_det''
     empty_products = Inl ValueError \<and>
   standard_analysis_products (dark_scenario_env (const_frame 9) (const_frame 9)) ''data'' =
     \<lparr>printed = [], report = Some ''data/cam_det_analysis_report.pdf'',
      returned = Inl ValueError\<rparr> \<and>
   (\<exists>st. dark_section (dark_scenario_env (const_frame (9 / 2)) (const_frame (9 / 2)))
           ''data/cam_det'' empty_products = Inr st \<and>
         dark_current st =
           [''low (dual-gain)'' \<mapsto> 9 / 2 / 900, ''high (dual-gain)'' \<mapsto> 9 / 2 / 900]) \<and>
   (\<exists>st. dark_section (dark_scenario_env [[1, 2], [9, 10]] [[3, 4], [11, 13]])
           ''data/cam_det'' empty_products = Inr st \<and>
         dark_current st =
           [''low (dual-gain)'' \<mapsto> 15 / 2 / 900, ''high (dual-gain)'' \<mapsto> 11 / 2 / 900])"
proof (intro conjI)
  show "load_dark_frames (dark_scenario_env (const_frame 9) (const_frame 9)) ''data/cam_det'' ''FUVdark'' =
     Inr \<lparr>short_low = replicate 9 [[2, 3], [4, 6]], short_high = replicate 9 [[1, 2], [3, 5]],
          long_low = replicate 9 (const_frame 9), long_high = replicate 9 (const_frame 9)\<rparr>"
    by (rule dark_scenario_load_FUV)
  show "median_axis0 (replicate 9 (const_frame 9)) = const_frame 9"
    by (simp only: const_frame_def median_axis0_replicate_9)
  show "median (flatten (const_frame 9)) / 900 = 9 / 900"
    by (simp add: const_frame_def flatten_def median_def)
  show "hist_page (dark_scenario_env (const_frame 9) (const_frame 9)) (const_frame 9)
     ''Dark frames - FUVdark mode - long low-gain frame''
     (empty_products\<lparr>dark_current := [''low (dual-gain)'' \<mapsto> 9 / 900]\<rparr>) = Inl ValueError"
    by (simp add: hist_page_def const_frame_def flatten_def min_max_def py_min_def py_max_def)
  show m: "dark_mode (dark_scenario_env (const_frame 9) (const_frame 9)) ''data/cam_det'' ''FUVdark''
     st = Inl ValueError" for st
    by (simp add: dark_mode_def dark_scenario_load_FUV dark_scenario_FUV_integer)
  show s: "dark_section (dark_scenario_env (const_frame 9) (const_frame 9)) ''data/cam_det''
     st = Inl ValueError" for st
    by (simp add: dark_section_def m)
  show "standard_analysis_products (dark_scenario_env (const_frame 9) (const_frame 9)) ''data'' =
     \<lparr>printed = [], report = Some ''data/cam_det_analysis_report.pdf'',
      returned = Inl ValueError\<rparr>"
    by (simp add: standard_analysis_products_def report_body_def item_def os_path_join_def
        present_def savepage_def Let_def dark_scenario_env_fields s)
  show "\<exists>st. dark_section (dark_scenario_env (const_frame (9 / 2)) (const_frame (9 / 2)))
           ''data/cam_det'' empty_products = Inr st \<and>
         dark_current st =
           [''low (dual-gain)'' \<mapsto> 9 / 2 / 900, ''high (dual-gain)'' \<mapsto> 9 / 2 / 900]"
    using dark_scenario_FUV_mode [OF dark_scenario_FUV_half, of empty_products]
    by (simp add: const_frame_def median_axis0_replicate_9 flatten_def median_def
        empty_products_def)
  show "\<exists>st. dark_section (dark_scenario_env [[1, 2], [9, 10]] [[3, 4], [11, 13]])
           ''data/cam_det'' empty_products = Inr st \<and>
         dark_current st =
           [''low (dual-gain)'' \<mapsto> 15 / 2 / 900, ''high (dual-gain)'' \<mapsto> 11 / 2 / 900]"
    using dark_scenario_FUV_mode [OF dark_scenario_FUV_nonconstant, of empty_products]
    by (simp add: median_axis0_replicate_9 flatten_def median_def empty_products_def)
qed

subsection \<open>The keys of the measurement dictionaries\<close>

lemma bias_page_Inr:
  assumes "bias_page env (g, med_bias, v) st = Inr st'"
  shows "st' = st\<lparr>read_noise := (read_noise st)(g \<mapsto> np_sqrt v),
                   pages := pages st @ [HistPage (''Bias frames - gain: '' @ g) med_bias]\<rparr>"
  using assms by (auto simp: bias_page_def and_then_Inr dest!: hist_page_Inr)

lemma bias_frame_Inr:
  assumes "bias_frame env bifr st = Inr st'"
  shows "dom (read_noise st') =
           dom (read_noise st) \<union>
           (if gain bifr = ''hdr'' then {''high (dual-gain)'', ''low (dual-gain)''} else {gain bifr})"
    and "det_gain st' = det_gain st" and "dark_current st' = dark_current st"
    and "well_depth st' = well_depth st"
proof -
  from assms obtain chs where c: "bias_channels bifr = Inr chs"
    and l: "for_each (bias_page env) chs st = Inr st'"
    by (auto simp: bias_frame_def and_then_Inr)
  show "dom (read_noise st') =
           dom (read_noise st) \<union>
           (if gain bifr = ''hdr'' then {''high (dual-gain)'', ''low (dual-gain)''} else {gain bifr})"
    and "det_gain st' = det_gain st" and "dark_current st' = dark_current st"
    and "well_depth st' = well_depth st"
    using c l
    by (auto simp: bias_channels_def split: if_splits chan.splits sum.splits dest!: bias_page_Inr)
qed

lemma flat_gain_labels:
  assumes "flat_gain env prefix g acc = Inr acc'"
  shows "gain_label acc' =
           gain_label acc @
           (if g = ''hdr'' then [''high (dual-gain)'', ''low (dual-gain)''] else [g]) \<and>
         length (sat_flats acc') = length (sat_flats acc) + (if g = ''hdr'' then 2 else 1) \<and>
         length (mid_flats acc') = length (mid_flats acc) + (if g = ''hdr'' then 2 else 1) \<and>
         (\<exists>ffs. load_by_file_prefix env (prefix @ ''_flat_'' @ g) = Inr ffs \<and> ffs \<noteq> [])"
proof (cases "g = ''hdr''")
  case True
  from assms [unfolded True] show ?thesis
    by (rule flat_gain_hdr_Inr) (auto simp: True py_max_def split: list.splits)
next
  case False
  from assms False show ?thesis
    by (rule flat_gain_mono_Inr) (auto simp: False py_max_def split: list.splits)
qed

lemma load_flats_Inr:
  assumes "load_flats env prefix = Inr acc"
  shows "gain_label acc = [''high (dual-gain)'', ''low (dual-gain)'', ''high'', ''low'']"
    and "length (sat_flats acc) = 4" and "length (mid_flats acc) = 4"
    and "\<forall>g \<in> set [''hdr'', ''high'', ''low''].
           \<exists>ffs. load_by_file_prefix env (prefix @ ''_flat_'' @ g) = Inr ffs \<and> ffs \<noteq> []"
proof -
  from assms obtain a1 a2 where
    g1: "flat_gain env prefix ''hdr'' no_flats = Inr a1" and
    g2: "flat_gain env prefix ''high'' a1 = Inr a2" and
    g3: "flat_gain env prefix ''low'' a2 = Inr acc"
    by (auto simp: load_flats_def split: sum.splits)
  note l1 = flat_gain_labels [OF g1] and l2 = flat_gain_labels [OF g2]
    and l3 = flat_gain_labels [OF g3]
  from l1 l2 l3 show "gain_label acc = [''high (dual-gain)'', ''low (dual-gain)'', ''high'', ''low'']"
    by (simp add: no_flats_def)
  from l1 l2 l3 show "length (sat_flats acc) = 4" by (simp add: no_flats_def)
  from l1 l2 l3 show "length (mid_flats acc) = 4" by (simp add: no_flats_def)
  from l1 l2 l3 show "\<forall>g \<in> set [''hdr'', ''high'', ''low''].
           \<exists>ffs. load_by_file_prefix env (prefix @ ''_flat_'' @ g) = Inr ffs \<and> ffs \<noteq> []"
    by simp
qed

lemma mid_flat_page_Inr:
  assumes "mid_flat_page env acc i st = Inr st'"
  shows "read_noise st' = read_noise st \<and> det_gain st' = det_gain st \<and>
         dark_current st' = dark_current st \<and> well_depth st' = well_depth st"
  using assms by (auto simp: mid_flat_page_def Let_def and_then_Inr dest!: hist_page_Inr)

lemma mid_flat_loop_Inr:
  assumes "for_each (mid_flat_page env acc) is st = Inr st'"
  shows "read_noise st' = read_noise st \<and> det_gain st' = det_gain st \<and>
         dark_current st' = dark_current st \<and> well_depth st' = well_depth st"
  using assms
proof (induction "is" arbitrary: st)
  case Nil
  then show ?case by simp
next
  case (Cons i "is")
  from Cons.prems obtain st1 where a: "mid_flat_page env acc i st = Inr st1"
    and b: "for_each (mid_flat_page env acc) is st1 = Inr st'"
    by (auto split: sum.splits)
  from mid_flat_page_Inr [OF a] Cons.IH [OF b] show ?case by simp
qed

lemma well_depth_page_Inr:
  assumes "well_depth_page env acc i st = Inr st'"
  shows "read_noise st' = read_noise st \<and> det_gain st' = det_gain st \<and>
         dark_current st' = dark_current st \<and> i < length (gain_label acc) \<and>
         well_depth st' = (well_depth st)(gain_label acc ! i \<mapsto> median (flatten (sat_flats acc ! i)))"
  using assms
  by (auto simp: well_depth_page_def Let_def and_then_Inr item_Inr dest!: hist_page_Inr)

lemma well_depth_loop_Inr:
  assumes "for_each (well_depth_page env acc) is st = Inr st'"
  shows "read_noise st' = read_noise st \<and> det_gain st' = det_gain st \<and>
         dark_current st' = dark_current st \<and>
         dom (well_depth st') = dom (well_depth st) \<union> (\<lambda>i. gain_label acc ! i) ` set is"
  using assms
proof (induction "is" arbitrary: st)
  case Nil
  then show ?case by simp
next
  case (Cons i "is")
  from Cons.prems obtain st1 where a: "well_depth_page env acc i st = Inr st1"
    and b: "for_each (well_depth_page env acc) is st1 = Inr st'"
    by (auto split: sum.splits)
  from well_depth_page_Inr [OF a] Cons.IH [OF b] show ?case by auto
qed

lemma ptc_channel_dom:
  assumes "ptc_channel env acc j st = Inr st'"
  shows "dom (read_noise st') = dom (read_noise st) \<and>
         dom (dark_current st') = dom (dark_current st) \<and>
         dom (well_depth st') = dom (well_depth st) \<and>
         dom (det_gain st') = insert (gain_label acc ! j) (dom (det_gain st))"
proof -
  from assms obtain k where
    st': "st' = convert_to_electrons (gain_label acc ! j) k
                  (st\<lparr>det_gain := (det_gain st)(gain_label acc ! j \<mapsto> k)\<rparr>)"
    by (rule ptc_channel_Inr)
  show ?thesis
    by (auto simp: st' conv_read_noise conv_dark_current conv_well_depth conv_det_gain
          split: option.splits if_splits)
qed

lemma ptc_loop_dom:
  assumes "for_each (ptc_channel env acc) js st = Inr st'"
  shows "dom (read_noise st') = dom (read_noise st) \<and>
         dom (dark_current st') = dom (dark_current st) \<and>
         dom (well_depth st') = dom (well_depth st) \<and>
         dom (det_gain st') = dom (det_gain st) \<union> (\<lambda>j. gain_label acc ! j) ` set js"
  using assms
proof (induction js arbitrary: st)
  case Nil
  then show ?case by simp
next
  case (Cons j js)
  from Cons.prems obtain st1 where a: "ptc_channel env acc j st = Inr st1"
    and b: "for_each (ptc_channel env acc) js st1 = Inr st'"
    by (auto split: sum.splits)
  from ptc_channel_dom [OF a] Cons.IH [OF b] show ?case by auto
qed

lemma flat_section_Inr:
  assumes "flat_section env prefix st = Inr st'"
  obtains acc st1 st2 st3 where "load_flats env prefix = Inr acc"
    and "for_each (mid_flat_page env acc) [0..<4] st = Inr st1"
    and "for_each (well_depth_page env acc) [0..<4] st1 = Inr st2"
    and "for_each (ptc_channel env acc) [0..<4] st2 = Inr st3"
    and "st' = st3\<lparr>pages := pages st3 @ [LinearityPTC]\<rparr>"
proof -
  from assms obtain acc st1 st2 st3 where l: "load_flats env prefix = Inr acc"
    and a: "for_each (mid_flat_page env acc) [0..<length (mid_flats acc)] st = Inr st1"
    and b: "for_each (well_depth_page env acc) [0..<length (sat_flats acc)] st1 = Inr st2"
    and c: "for_each (ptc_channel env acc) [0..<4] st2 = Inr st3"
    and d: "savepage env LinearityPTC st3 = Inr st'"
    by (auto simp: flat_section_def and_then_Inr)
  note ll = load_flats_Inr [OF l]
  show ?thesis
    by (rule that [OF l a [unfolded ll] b [unfolded ll] c]) (use d in \<open>simp add: savepage_Inr\<close>)
qed

lemma flat_section_dom:
  assumes "flat_section env prefix st = Inr st'"
  shows "dom (read_noise st') = dom (read_noise st)"
    and "dom (dark_current st') = dom (dark_current st)"
    and "dom (well_depth st') =
           dom (well_depth st) \<union> {''high (dual-gain)'', ''low (dual-gain)'', ''high'', ''low''}"
    and "dom (det_gain st') =
           dom (det_gain st) \<union> {''high (dual-gain)'', ''low (dual-gain)'', ''high'', ''low''}"
proof -
  from assms obtain acc st1 st2 st3 where l: "load_flats env prefix = Inr acc"
    and a: "for_each (mid_flat_page env acc) [0..<4] st = Inr st1"
    and b: "for_each (well_depth_page env acc) [0..<4] st1 = Inr st2"
    and c: "for_each (ptc_channel env acc) [0..<4] st2 = Inr st3"
    and d: "st' = st3\<lparr>pages := pages st3 @ [LinearityPTC]\<rparr>"
    by (rule flat_section_Inr)
  have labels: "(\<lambda>j. gain_label acc ! j) ` set [0..<4] =
                  {''high (dual-gain)'', ''low (dual-gain)'', ''high'', ''low''}"
    by (simp add: load_flats_Inr(1) [OF l] upt_4)
  note m = mid_flat_loop_Inr [OF a] and w = well_depth_loop_Inr [OF b, unfolded labels]
    and p = ptc_loop_dom [OF c, unfolded labels]
  from m w p show "dom (read_noise st') = dom (read_noise st)" by (simp add: d)
  from m w p show "dom (dark_current st') = dom (dark_current st)" by (simp add: d)
  from m w p show "dom (well_depth st') =
           dom (well_depth st) \<union> {''high (dual-gain)'', ''low (dual-gain)'', ''high'', ''low''}"
    by (simp add: d)
  from m w p show "dom (det_gain st') =
           dom (det_gain st) \<union> {''high (dual-gain)'', ''low (dual-gain)'', ''high'', ''low''}"
    by (simp add: d)
qed

lemmas sample_bias_evals = bias_section_def bias_frame_def bias_channels_def bias_page_def
  sample_bias_hdr_def sample_bias_high_def median_axis0_def median_def min_max_def py_min_def
  py_max_def flatten_def hist_page_def savepage_def np_sqrt_def sample_env_fields sample_load_def

lemma sample_bias_section:
  "bias_section sample_env ''data/cam_det'' (empty_products\<lparr>pages := [TitlePage]\<rparr>) =
     Inr sample_bias_products"
  by (simp add: sample_bias_evals empty_products_def sample_bias_products_def)

lemma sample_dark_section_run:
  "dark_section sample_env ''data/cam_det'' sample_bias_products = Inr sample_dark_products"
  by (simp add: sample_dark_section sample_dark_products_def sample_bias_products_def)

lemmas sample_flat_page_evals = mid_flat_page_def well_depth_page_def sample_flats_def item_def
  min_max_def py_min_def py_max_def flatten_def median_def hist_page_def savepage_def
  sample_env_fields Let_def upt_4

lemma sample_flat_section:
  "flat_section sample_env ''data/cam_det'' sample_dark_products = Inr sample_flat_products"
proof -
  have a: "for_each (mid_flat_page sample_env sample_flats) [0..<4] sample_dark_products =
     Inr (sample_dark_products\<lparr>pages := pages sample_dark_products @ take 4 sample_flat_pages\<rparr>)"
    by (simp add: sample_flat_page_evals sample_flat_pages_def)
  have b: "for_each (well_depth_page sample_env sample_flats) [0..<4]
             (sample_dark_products\<lparr>pages := pages sample_dark_products @ take 4 sample_flat_pages\<rparr>) =
     Inr (sample_dark_products\<lparr>
            well_depth := [''high (dual-gain)'' \<mapsto> 20000, ''low (dual-gain)'' \<mapsto> 19998,
                           ''high'' \<mapsto> 20000, ''low'' \<mapsto> 20000],
            pages := pages sample_dark_products @ take 8 sample_flat_pages\<rparr>)"
    by (simp add: sample_flat_page_evals sample_flat_pages_def sample_dark_products_def
        sample_bias_products_def)
  have c: "for_each (ptc_channel sample_env sample_flats) [0..<4]
             (sample_dark_products\<lparr>
                well_depth := [''high (dual-gain)'' \<mapsto> 20000, ''low (dual-gain)'' \<mapsto> 19998,
                               ''high'' \<mapsto> 20000, ''low'' \<mapsto> 20000],
                pages := pages sample_dark_products @ take 8 sample_flat_pages\<rparr>) =
     Inr (sample_flat_products\<lparr>pages := pages sample_dark_products @ take 8 sample_flat_pages\<rparr>)"
    by (simp add: upt_4 ptc_channel_def sample_env_fields sample_flats_def item_def
      mask_select_def py_min_def PowerLaw1D_def convert_to_electrons_def np_sqrt_def Let_def
      sample_dark_products_def sample_bias_products_def sample_flat_products_def)
  have len: "length (mid_flats sample_flats) = 4" "length (sat_flats sample_flats) = 4"
    by (simp_all add: sample_flats_def)
  have p: "sample_flat_products\<lparr>pages := pages sample_dark_products @ take 8 sample_flat_pages @
             [LinearityPTC]\<rparr> = sample_flat_products"
    by (simp add: sample_flat_products_def sample_flat_pages_def)
  show ?thesis
    by (simp add: flat_section_def sample_load_flats len a b c savepage_def sample_env_fields p)
qed

lemma sample_bias_frame_hdr:
  "bias_frame sample_env sample_bias_hdr empty_products =
     Inr (empty_products\<lparr>
            read_noise := [''high (dual-gain)'' \<mapsto> 16, ''low (dual-gain)'' \<mapsto> 4],
            pages := [HistPage ''Bias frames - gain: high (dual-gain)'' [[1, 2]],
                      HistPage ''Bias frames - gain: low (dual-gain)'' [[1, 2]]]\<rparr>)"
  by (simp add: sample_bias_evals empty_products_def)

lemma sample_bias_frame_high:
  "bias_frame sample_env sample_bias_high empty_products =
     Inr (empty_products\<lparr>
            read_noise := [''high'' \<mapsto> 9],
            pages := [HistPage ''Bias frames - gain: high'' [[1 / 2, 2]]]\<rparr>)"
  by (simp add: sample_bias_evals empty_products_def)

text \<open>
  C5. Every quantity is recorded under the labels of the gain mode of the group that is
  processed. A bias exposure in \<^verbatim>\<open>hdr\<close> mode adds the two read-noise keys
  \<^verbatim>\<open>high (dual-gain)\<close> and \<^verbatim>\<open>low (dual-gain)\<close>, any other bias exposure the one key
  that is its gain-mode name. The dark frames are dual-gain frames, and the mode that
  records a dark current adds the same two keys. A group of flats in \<^verbatim>\<open>hdr\<close> mode
  contributes the two dual-gain labels and any other group its gain-mode name, and the
  well depth and the gain are recorded under exactly these labels. No step removes a
  key from a dictionary.
\<close>

theorem measurement_keys_by_gain_mode:
  "(bias_frame env bifr sb = Inr sb' \<longrightarrow>
      dom (read_noise sb') =
        dom (read_noise sb) \<union>
        (if gain bifr = ''hdr'' then {''high (dual-gain)'', ''low (dual-gain)''} else {gain bifr}) \<and>
      det_gain sb' = det_gain sb \<and> dark_current sb' = dark_current sb \<and>
      well_depth sb' = well_depth sb) \<and>
   (dark_mode env prefix mode sd = Inr sd' \<longrightarrow>
      dom (dark_current sd') =
        dom (dark_current sd) \<union>
        (if mode = ''FUVdark'' then {''high (dual-gain)'', ''low (dual-gain)''} else {}) \<and>
      read_noise sd' = read_noise sd \<and> det_gain sd' = det_gain sd \<and>
      well_depth sd' = well_depth sd) \<and>
   (flat_gain env prefix g acc = Inr acc' \<longrightarrow>
      gain_label acc' =
        gain_label acc @
        (if g = ''hdr'' then [''high (dual-gain)'', ''low (dual-gain)''] else [g])) \<and>
   (flat_section env prefix sf = Inr sf' \<longrightarrow>
      dom (well_depth sf') =
        dom (well_depth sf) \<union> {''high (dual-gain)'', ''low (dual-gain)'', ''high'', ''low''} \<and>
      dom (det_gain sf') =
        dom (det_gain sf) \<union> {''high (dual-gain)'', ''low (dual-gain)'', ''high'', ''low''} \<and>
      dom (read_noise sf') = dom (read_noise sf) \<and>
      dom (dark_current sf') = dom (dark_current sf))"
proof (intro conjI impI)
  assume b: "bias_frame env bifr sb = Inr sb'"
  note bias_frame_Inr [OF b]
  then show "dom (read_noise sb') =
        dom (read_noise sb) \<union>
        (if gain bifr = ''hdr'' then {''high (dual-gain)'', ''low (dual-gain)''} else {gain bifr})"
    and "det_gain sb' = det_gain sb" and "dark_current sb' = dark_current sb"
    and "well_depth sb' = well_depth sb"
    by blast+
next
  assume "dark_mode env prefix mode sd = Inr sd'"
  then obtain stacks where "dark_frames_products env mode stacks sd = Inr sd'"
    by (rule dark_mode_Inr)
  note p = dark_frames_products_Inr [OF this]
  from p(4) show "dom (dark_current sd') =
        dom (dark_current sd) \<union>
        (if mode = ''FUVdark'' then {''high (dual-gain)'', ''low (dual-gain)''} else {})"
    by auto
  from p show "read_noise sd' = read_noise sd" and "det_gain sd' = det_gain sd"
    and "well_depth sd' = well_depth sd"
    by blast+
next
  assume "flat_gain env prefix g acc = Inr acc'"
  from flat_gain_labels [OF this]
  show "gain_label acc' =
        gain_label acc @
        (if g = ''hdr'' then [''high (dual-gain)'', ''low (dual-gain)''] else [g])"
    by blast
next
  assume f: "flat_section env prefix sf = Inr sf'"
  note flat_section_dom [OF f]
  then show "dom (well_depth sf') =
        dom (well_depth sf) \<union> {''high (dual-gain)'', ''low (dual-gain)'', ''high'', ''low''}"
    and "dom (det_gain sf') =
        dom (det_gain sf) \<union> {''high (dual-gain)'', ''low (dual-gain)'', ''high'', ''low''}"
    and "dom (read_noise sf') = dom (read_noise sf)"
    and "dom (dark_current sf') = dom (dark_current sf)"
    by blast+
qed

theorem measurement_keys_by_gain_mode_witness:
  "bias_frame sample_env sample_bias_hdr empty_products =
     Inr (empty_products\<lparr>
            read_noise := [''high (dual-gain)'' \<mapsto> 16, ''low (dual-gain)'' \<mapsto> 4],
            pages := [HistPage ''Bias frames - gain: high (dual-gain)'' [[1, 2]],
                      HistPage ''Bias frames - gain: low (dual-gain)'' [[1, 2]]]\<rparr>) \<and>
   dom [''high (dual-gain)'' \<mapsto> 16 :: real, ''low (dual-gain)'' \<mapsto> 4] =
     dom (read_noise empty_products) \<union> {''high (dual-gain)'', ''low (dual-gain)''} \<and>
   bias_frame sample_env sample_bias_high empty_products =
     Inr (empty_products\<lparr>
            read_noise := [''high'' \<mapsto> 9],
            pages := [HistPage ''Bias frames - gain: high'' [[1 / 2, 2]]]\<rparr>) \<and>
   dom [''high'' \<mapsto> 9 :: real] = dom (read_noise empty_products) \<union> {''high''} \<and>
   dark_mode sample_env ''data/cam_det'' ''FUVdark'' empty_products =
     Inr (empty_products\<lparr>dark_current :=
            [''low (dual-gain)'' \<mapsto> 1 / 200, ''high (dual-gain)'' \<mapsto> 1 / 200],
          pages := sample_dark_pages ''FUVdark''\<rparr>) \<and>
   dom [''low (dual-gain)'' \<mapsto> 1 / 200 :: real, ''high (dual-gain)'' \<mapsto> 1 / 200] =
     dom (dark_current empty_products) \<union> {''high (dual-gain)'', ''low (dual-gain)''} \<and>
   flat_gain sample_env ''data/cam_det'' ''hdr'' no_flats = Inr sample_flats_hdr \<and>
   gain_label sample_flats_hdr = gain_label no_flats @ [''high (dual-gain)'', ''low (dual-gain)''] \<and>
   flat_section sample_env ''data/cam_det'' sample_dark_products = Inr sample_flat_products \<and>
   dom (well_depth sample_flat_products) =
     dom (well_depth sample_dark_products) \<union>
     {''high (dual-gain)'', ''low (dual-gain)'', ''high'', ''low''} \<and>
   dom (det_gain sample_flat_products) =
     dom (det_gain sample_dark_products) \<union>
     {''high (dual-gain)'', ''low (dual-gain)'', ''high'', ''low''}"
proof -
  note t = measurement_keys_by_gain_mode
  have 1: "dom [''high (dual-gain)'' \<mapsto> 16 :: real, ''low (dual-gain)'' \<mapsto> 4] =
     dom (read_noise empty_products) \<union> {''high (dual-gain)'', ''low (dual-gain)''}"
    using t [THEN conjunct1, THEN mp, OF sample_bias_frame_hdr]
    by (simp add: sample_bias_hdr_def)
  have 2: "dom [''high'' \<mapsto> 9 :: real] = dom (read_noise empty_products) \<union> {''high''}"
    using t [THEN conjunct1, THEN mp, OF sample_bias_frame_high]
    by (simp add: sample_bias_high_def)
  have 3: "dom [''low (dual-gain)'' \<mapsto> 1 / 200 :: real, ''high (dual-gain)'' \<mapsto> 1 / 200] =
     dom (dark_current empty_products) \<union> {''high (dual-gain)'', ''low (dual-gain)''}"
    using t [THEN conjunct2, THEN conjunct1, THEN mp, OF sample_dark_mode_FUV]
    by simp
  have 4: "gain_label sample_flats_hdr =
     gain_label no_flats @ [''high (dual-gain)'', ''low (dual-gain)'']"
    using t [THEN conjunct2, THEN conjunct2, THEN conjunct1, THEN mp, OF sample_flat_gain_hdr]
    by simp
  note 5 = t [THEN conjunct2, THEN conjunct2, THEN conjunct2, THEN mp, OF sample_flat_section]
  from sample_bias_frame_hdr 1 sample_bias_frame_high 2 sample_dark_mode_FUV 3
    sample_flat_gain_hdr 4 sample_flat_section 5 [THEN conjunct1]
    5 [THEN conjunct2, THEN conjunct1]
  show ?thesis by (intro conjI)
qed

subsection \<open>Failures of the flat analysis\<close>

lemma not_Inr_fails: "(\<And>y. m \<noteq> Inr y) \<Longrightarrow> \<exists>e. m = Inl e"
  by (cases m) auto

lemma report_body_flat:
  assumes "report_body env prefix files = Inr st'" and "present ''flat'' files"
  obtains st2 st3 where "flat_section env prefix st2 = Inr st3"
  using assms
  by (auto simp: report_body_def and_then_Inr split: option.splits if_splits)

lemma flat_section_loads:
  assumes "flat_section env prefix st = Inr st'"
  shows "\<forall>g \<in> set [''hdr'', ''high'', ''low''].
           \<exists>ffs. load_by_file_prefix env (prefix @ ''_flat_'' @ g) = Inr ffs \<and> ffs \<noteq> []"
proof -
  from assms obtain acc where "load_flats env prefix = Inr acc"
    by (rule flat_section_Inr)
  then show ?thesis by (rule load_flats_Inr(4))
qed

lemma flat_section_fails_without_files:
  assumes "g \<in> set [''hdr'', ''high'', ''low'']"
    and "load_by_file_prefix env (prefix @ ''_flat_'' @ g) = Inr [] \<or>
         (\<exists>e. load_by_file_prefix env (prefix @ ''_flat_'' @ g) = Inl e)"
  shows "\<exists>e. flat_section env prefix st = Inl e"
proof -
  have "flat_section env prefix st \<noteq> Inr st'" for st'
  proof
    assume "flat_section env prefix st = Inr st'"
    from flat_section_loads [OF this] assms show False by auto
  qed
  then show ?thesis by (rule not_Inr_fails)
qed

lemma flat_gain_no_files:
  assumes "load_by_file_prefix env (prefix @ ''_flat_'' @ g) = Inr []"
  shows "flat_gain env prefix g acc = Inl ValueError"
  using assms by (simp add: flat_gain_def py_max_def)

lemma sample_present:
  "present ''bias'' sample_files" "present ''dark'' sample_files" "present ''flat'' sample_files"
  by (simp_all add: present_def sample_files_def)

lemma sample_report_body:
  "report_body sample_env ''data/cam_det'' sample_files = Inr sample_report"
  by (simp add: report_body_def sample_present sample_env_fields savepage_def
      sample_bias_section [unfolded empty_products_def, simplified]
      sample_dark_section_run sample_flat_section sample_report_def)

lemma sample_flat_section_no_low:
  "flat_section sample_env_no_low ''data/cam_det'' st = Inl ValueError"
  by (simp add: flat_section_def load_flats_def flat_gain_def sample_env_no_low_def
      sample_env_def sample_load_def sample_flat_dual_def
      sample_flat_mono_def py_max_def np_argmax_def item_def cds_high0_def cds_low0_def cds0_def
      mid_exp_i_def np_where_def no_flats_def Let_def)

text \<open>
  C10. When a file name contains \<^verbatim>\<open>flat\<close> the flat analysis loads the flats of the three
  gain modes \<^verbatim>\<open>hdr\<close>, \<^verbatim>\<open>high\<close> and \<^verbatim>\<open>low\<close>, whatever the directory holds: a run that
  returns has found at least one flat for each of them, has built exactly the four
  channels that the loop over the indices 0 to 3 processes, and has recorded a gain for
  exactly these four. When the loader finds no flat for one of the three gain modes (it
  returns an empty list, or raises) the flat analysis and the run end with an error and
  the gain mode is not skipped; for an empty list the error is the ValueError of
  \<^verbatim>\<open>max\<close>.
\<close>

theorem flats_of_three_gain_modes_are_required:
  "(flat_section env prefix st = Inr st' \<longrightarrow>
      (\<forall>g \<in> set [''hdr'', ''high'', ''low''].
         \<exists>ffs. load_by_file_prefix env (prefix @ ''_flat_'' @ g) = Inr ffs \<and> ffs \<noteq> []) \<and>
      (\<exists>acc. load_flats env prefix = Inr acc \<and>
         gain_label acc = [''high (dual-gain)'', ''low (dual-gain)'', ''high'', ''low'']) \<and>
      dom (det_gain st') =
        dom (det_gain st) \<union> {''high (dual-gain)'', ''low (dual-gain)'', ''high'', ''low''}) \<and>
   (present ''flat'' files \<and> report_body env prefix files = Inr sr \<longrightarrow>
      (\<forall>g \<in> set [''hdr'', ''high'', ''low''].
         \<exists>ffs. load_by_file_prefix env (prefix @ ''_flat_'' @ g) = Inr ffs \<and> ffs \<noteq> [])) \<and>
   (g \<in> set [''hdr'', ''high'', ''low''] \<and>
    (load_by_file_prefix env (prefix @ ''_flat_'' @ g) = Inr [] \<or>
     (\<exists>e. load_by_file_prefix env (prefix @ ''_flat_'' @ g) = Inl e)) \<longrightarrow>
      (\<exists>e. flat_section env prefix st = Inl e) \<and>
      (present ''flat'' files \<longrightarrow> (\<exists>e. report_body env prefix files = Inl e))) \<and>
   (load_by_file_prefix env (prefix @ ''_flat_'' @ g) = Inr [] \<longrightarrow>
      flat_gain env prefix g acc = Inl ValueError)"
proof (intro conjI impI)
  assume f: "flat_section env prefix st = Inr st'"
  show "\<forall>g \<in> set [''hdr'', ''high'', ''low''].
         \<exists>ffs. load_by_file_prefix env (prefix @ ''_flat_'' @ g) = Inr ffs \<and> ffs \<noteq> []"
    by (rule flat_section_loads [OF f])
  from f obtain acc where l: "load_flats env prefix = Inr acc"
    by (rule flat_section_Inr)
  with load_flats_Inr(1) [OF l]
  show "\<exists>acc. load_flats env prefix = Inr acc \<and>
         gain_label acc = [''high (dual-gain)'', ''low (dual-gain)'', ''high'', ''low'']"
    by blast
  show "dom (det_gain st') =
        dom (det_gain st) \<union> {''high (dual-gain)'', ''low (dual-gain)'', ''high'', ''low''}"
    by (rule flat_section_dom(4) [OF f])
next
  assume "present ''flat'' files \<and> report_body env prefix files = Inr sr"
  then obtain st2 st3 where "flat_section env prefix st2 = Inr st3"
    by (blast elim: report_body_flat)
  then show "\<forall>g \<in> set [''hdr'', ''high'', ''low''].
         \<exists>ffs. load_by_file_prefix env (prefix @ ''_flat_'' @ g) = Inr ffs \<and> ffs \<noteq> []"
    by (rule flat_section_loads)
next
  assume a: "g \<in> set [''hdr'', ''high'', ''low''] \<and>
    (load_by_file_prefix env (prefix @ ''_flat_'' @ g) = Inr [] \<or>
     (\<exists>e. load_by_file_prefix env (prefix @ ''_flat_'' @ g) = Inl e))"
  then show "\<exists>e. flat_section env prefix st = Inl e"
    by (intro flat_section_fails_without_files [of g]) blast+
  assume p: "present ''flat'' files"
  have "report_body env prefix files \<noteq> Inr sr" for sr
  proof
    assume "report_body env prefix files = Inr sr"
    then obtain st2 st3 where "flat_section env prefix st2 = Inr st3"
      using p by (rule report_body_flat)
    from flat_section_loads [OF this] a show False by auto
  qed
  then show "\<exists>e. report_body env prefix files = Inl e"
    by (rule not_Inr_fails)
next
  assume "load_by_file_prefix env (prefix @ ''_flat_'' @ g) = Inr []"
  then show "flat_gain env prefix g acc = Inl ValueError"
    by (rule flat_gain_no_files)
qed

theorem flats_of_three_gain_modes_are_required_witness:
  "flat_section sample_env ''data/cam_det'' sample_dark_products = Inr sample_flat_products \<and>
   load_flats sample_env ''data/cam_det'' = Inr sample_flats \<and>
   gain_label sample_flats = [''high (dual-gain)'', ''low (dual-gain)'', ''high'', ''low''] \<and>
   dom (det_gain sample_flat_products) =
     dom (det_gain sample_dark_products) \<union>
     {''high (dual-gain)'', ''low (dual-gain)'', ''high'', ''low''} \<and>
   present ''flat'' sample_files \<and>
   report_body sample_env ''data/cam_det'' sample_files = Inr sample_report \<and>
   ''low'' \<in> set [''hdr'', ''high'', ''low''] \<and>
   load_by_file_prefix sample_env_no_low (''data/cam_det'' @ ''_flat_'' @ ''low'') = Inr [] \<and>
   flat_gain sample_env_no_low ''data/cam_det'' ''low'' sample_flats_hdr = Inl ValueError \<and>
   flat_section sample_env_no_low ''data/cam_det'' sample_dark_products = Inl ValueError \<and>
   (\<exists>e. report_body sample_env_no_low ''data/cam_det'' sample_files = Inl e)"
proof -
  note t = flats_of_three_gain_modes_are_required
  note s = t [where env = sample_env and prefix = "''data/cam_det''" and st = sample_dark_products
                and st' = sample_flat_products, THEN conjunct1, THEN mp, OF sample_flat_section]
  have g: "gain_label sample_flats = [''high (dual-gain)'', ''low (dual-gain)'', ''high'', ''low'']"
    by (simp add: sample_flats_def)
  have l: "load_by_file_prefix sample_env_no_low (''data/cam_det'' @ ''_flat_'' @ ''low'') = Inr []"
    by (simp add: sample_env_no_low_def)
  have m: "''low'' \<in> set [''hdr'', ''high'', ''low'']" by simp
  note n = t [where env = sample_env_no_low and prefix = "''data/cam_det''" and g = "''low''"
                and files = sample_files and st = sample_dark_products and acc = sample_flats_hdr]
  from n l have v: "flat_gain sample_env_no_low ''data/cam_det'' ''low'' sample_flats_hdr = Inl ValueError"
    by blast
  from n l m sample_present(3)
  have r: "\<exists>e. report_body sample_env_no_low ''data/cam_det'' sample_files = Inl e"
    by blast
  from sample_flat_section sample_load_flats g s [THEN conjunct2, THEN conjunct2]
    sample_present(3) sample_report_body m l v sample_flat_section_no_low r
  show ?thesis by (intro conjI)
qed

lemma load_flats_steps:
  assumes "load_flats env prefix = Inr acc" and "g \<in> set [''hdr'', ''high'', ''low'']"
  shows "\<exists>a a'. flat_gain env prefix g a = Inr a'"
proof -
  from assms(1) obtain a1 a2 where
    "flat_gain env prefix ''hdr'' no_flats = Inr a1"
    "flat_gain env prefix ''high'' a1 = Inr a2"
    "flat_gain env prefix ''low'' a2 = Inr acc"
    by (auto simp: load_flats_def split: sum.splits)
  with assms(2) show ?thesis by auto
qed

lemma mid_exp_i_in_range:
  assumes "mid_exp_i medians = Inr i"
  shows "\<exists>m \<in> set medians. 5000 < m \<and> m < 15000"
  using assms by (auto simp: mid_exp_i_Inr)

lemma flat_gain_mid:
  assumes "flat_gain env prefix g a = Inr a'"
    and "load_by_file_prefix env (prefix @ ''_flat_'' @ g) = Inr ffs"
    and "c = 0 \<or> c = 1 \<and> g = ''hdr''"
  shows "\<exists>m \<in> set (channel_medians c ffs). 5000 < m \<and> m < 15000"
proof (cases "g = ''hdr''")
  case True
  from assms(1) [unfolded True] obtain ffs' h l where
    "load_by_file_prefix env (prefix @ ''_flat_hdr'') = Inr ffs'"
    "mid_exp_i (channel_medians 0 ffs') = Inr h" "mid_exp_i (channel_medians 1 ffs') = Inr l"
    by (rule flat_gain_hdr_Inr)
  with assms(2,3) True show ?thesis
    by (auto dest: mid_exp_i_in_range)
next
  case False
  from assms(1) False obtain ffs' i where
    "load_by_file_prefix env (prefix @ ''_flat_'' @ g) = Inr ffs'"
    "mid_exp_i (channel_medians 0 ffs') = Inr i"
    by (rule flat_gain_mono_Inr)
  with assms(2,3) False show ?thesis
    by (auto dest: mid_exp_i_in_range)
qed

lemma fold_max_in: "fold max ys (y :: real) \<in> set (y # ys)"
proof (induction ys arbitrary: y)
  case Nil
  then show ?case by simp
next
  case (Cons x xs)
  from Cons.IH [of "max x y"] show ?case
    by (auto simp: max_def split: if_splits)
qed

lemma np_argmax_less:
  assumes "py_max xs = Inr m"
  shows "np_argmax xs m < length xs"
proof -
  from assms have "m \<in> set xs"
    using fold_max_in by (auto simp: py_max_def split: list.splits)
  then show ?thesis
    unfolding np_argmax_def by (induction xs) auto
qed

lemma wf_dual_columns:
  assumes "\<forall>e \<in> set ffs. wf_exposure ''hdr'' e"
  shows "dual_columns (map get_median ffs) = Inr (channel_medians 0 ffs, channel_medians 1 ffs)"
    and "\<exists>vs. dual_columns (map get_variance ffs) = Inr vs"
  using assms
proof (induction ffs)
  case Nil
  {
    case 1
    then show ?case by (simp add: channel_medians_def)
  next
    case 2
    then show ?case by simp
  }
next
  case (Cons e ffs)
  {
    case 1
    with Cons(1) show ?case
      by (auto simp: channel_medians_def wf_exposure_def split: chan.splits)
  next
    case 2
    with Cons(2) show ?case
      by (auto simp: wf_exposure_def split: chan.splits)
  }
qed

lemma wf_mono_column:
  assumes "\<forall>e \<in> set ffs. wf_exposure g e" and "g \<noteq> ''hdr''"
  shows "mono_column (map get_median ffs) = Inr (channel_medians 0 ffs)"
    and "\<exists>vs. mono_column (map get_variance ffs) = Inr vs"
  using assms
proof (induction ffs)
  case Nil
  {
    case 1
    then show ?case by (simp add: channel_medians_def)
  next
    case 2
    then show ?case by simp
  }
next
  case (Cons e ffs)
  {
    case 1
    with Cons(1) show ?case
      by (auto simp: channel_medians_def wf_exposure_def split: chan.splits)
  next
    case 2
    with Cons(2) show ?case
      by (auto simp: wf_exposure_def split: chan.splits)
  }
qed

lemma wf_cds_dual:
  assumes "wf_exposure ''hdr'' e"
  shows "\<exists>h l. cds_high0 e = Inr h \<and> cds_low0 e = Inr l"
  using assms
  by (auto simp: wf_exposure_def cds_high0_def cds_low0_def item_def split: chan.splits)

lemma wf_cds_mono:
  assumes "wf_exposure g e" and "g \<noteq> ''hdr''"
  shows "\<exists>f. cds0 e = Inr f"
  using assms
  by (auto simp: wf_exposure_def cds0_def item_def split: chan.splits)

lemma flat_gain_no_mid_range:
  assumes load: "load_by_file_prefix env (prefix @ ''_flat_'' @ g) = Inr ffs"
    and ne: "ffs \<noteq> []" and wf: "\<forall>e \<in> set ffs. wf_exposure g e"
    and c: "c = 0 \<or> c = 1 \<and> g = ''hdr''"
    and none: "\<forall>m \<in> set (channel_medians c ffs). \<not> (5000 < m \<and> m < 15000)"
  shows "flat_gain env prefix g acc = Inl IndexError"
proof -
  from ne obtain max_exp where mx: "py_max (map exp_time ffs) = Inr max_exp"
    by (cases ffs) (auto simp: py_max_def)
  from np_argmax_less [OF mx] have lt: "np_argmax (map exp_time ffs) max_exp < length ffs"
    by simp
  then have it: "item ffs (np_argmax (map exp_time ffs) max_exp) =
                   Inr (ffs ! np_argmax (map exp_time ffs) max_exp)"
    by (simp add: item_def)
  from lt wf have wfs: "wf_exposure g (ffs ! np_argmax (map exp_time ffs) max_exp)"
    by simp
  from none have nm: "mid_exp_i (channel_medians c ffs) = Inl IndexError"
    by (simp add: mid_exp_i_Inl)
  show ?thesis
  proof (cases "g = ''hdr''")
    case True
    from wf_cds_dual [OF wfs [unfolded True]] obtain sat_h sat_l where
      sat: "cds_high0 (ffs ! np_argmax (map exp_time ffs) max_exp) = Inr sat_h"
           "cds_low0 (ffs ! np_argmax (map exp_time ffs) max_exp) = Inr sat_l"
      by blast
    from wf_dual_columns [OF wf [unfolded True]] obtain vs where
      dc: "dual_columns (map get_median ffs) = Inr (channel_medians 0 ffs, channel_medians 1 ffs)"
          "dual_columns (map get_variance ffs) = Inr vs"
      by blast
    have "and_then (mid_exp_i (channel_medians 0 ffs))
            (\<lambda>h. and_then (mid_exp_i (channel_medians 1 ffs)) (k h)) = Inl IndexError" for k
    proof (cases "mid_exp_i (channel_medians 0 ffs)")
      case (Inl e)
      then have "e = IndexError" by (simp add: mid_exp_i_Inl)
      with Inl show ?thesis by simp
    next
      case (Inr h)
      with c nm True show ?thesis by auto
    qed
    then show ?thesis
      using load by (cases vs) (simp add: flat_gain_def True mx it sat dc Let_def)
  next
    case False
    with c have c0: "c = 0" by simp
    from wf_cds_mono [OF wfs False] obtain sat_f where
      sat: "cds0 (ffs ! np_argmax (map exp_time ffs) max_exp) = Inr sat_f"
      by blast
    from wf_mono_column [OF wf False] obtain vs where
      mc: "mono_column (map get_median ffs) = Inr (channel_medians 0 ffs)"
          "mono_column (map get_variance ffs) = Inr vs"
      by blast
    show ?thesis
      using load by (simp add: flat_gain_def False mx it sat mc nm [unfolded c0] Let_def)
  qed
qed

lemma sample_flat_section_no_mid:
  "flat_section sample_env_no_mid ''data/cam_det'' st = Inl IndexError"
  by (simp add: flat_section_def load_flats_def flat_gain_def sample_env_no_mid_def
      sample_env_def sample_load_def sample_flat_dual_def
      sample_flat_mono_def py_max_def np_argmax_def item_def cds_high0_def cds_low0_def cds0_def
      mid_exp_i_def np_where_def no_flats_def Let_def)

text \<open>
  C6. When no flat of some channel has a median signal strictly between 5000 and 15000
  ADU, the flat analysis does not return: it ends with an error, and so does the run, so
  nothing after that channel is processed. With flats of the shape the loader promises
  the error is the IndexError of the empty index list.
\<close>

theorem no_mid_range_exposure_is_fatal:
  "g \<in> set [''hdr'', ''high'', ''low''] \<and>
   load_by_file_prefix env (prefix @ ''_flat_'' @ g) = Inr ffs \<and>
   (c = 0 \<or> c = 1 \<and> g = ''hdr'') \<and>
   (\<forall>m \<in> set (channel_medians c ffs). \<not> (5000 < m \<and> m < 15000)) \<longrightarrow>
     (\<exists>e. flat_section env prefix st = Inl e) \<and>
     (present ''flat'' files \<longrightarrow> (\<exists>e. report_body env prefix files = Inl e)) \<and>
     (ffs \<noteq> [] \<and> (\<forall>e \<in> set ffs. wf_exposure g e) \<longrightarrow>
        flat_gain env prefix g acc = Inl IndexError)"
proof (intro impI conjI)
  assume a: "g \<in> set [''hdr'', ''high'', ''low''] \<and>
   load_by_file_prefix env (prefix @ ''_flat_'' @ g) = Inr ffs \<and>
   (c = 0 \<or> c = 1 \<and> g = ''hdr'') \<and>
   (\<forall>m \<in> set (channel_medians c ffs). \<not> (5000 < m \<and> m < 15000))"
  then have g: "g \<in> set [''hdr'', ''high'', ''low'']"
    and l: "load_by_file_prefix env (prefix @ ''_flat_'' @ g) = Inr ffs"
    and c: "c = 0 \<or> c = 1 \<and> g = ''hdr''"
    and n: "\<forall>m \<in> set (channel_medians c ffs). \<not> (5000 < m \<and> m < 15000)"
    by blast+
  have no: "flat_section env prefix s \<noteq> Inr s'" for s s'
  proof
    assume "flat_section env prefix s = Inr s'"
    then obtain facc where "load_flats env prefix = Inr facc"
      by (rule flat_section_Inr)
    from load_flats_steps [OF this g] obtain a a' where "flat_gain env prefix g a = Inr a'"
      by blast
    from flat_gain_mid [OF this l c] n show False by blast
  qed
  then show "\<exists>e. flat_section env prefix st = Inl e"
    by (rule not_Inr_fails)
  {
    assume p: "present ''flat'' files"
    have "report_body env prefix files \<noteq> Inr sr" for sr
    proof
      assume "report_body env prefix files = Inr sr"
      then obtain st2 st3 where "flat_section env prefix st2 = Inr st3"
        using p by (rule report_body_flat)
      with no show False by blast
    qed
    then show "\<exists>e. report_body env prefix files = Inl e"
      by (rule not_Inr_fails)
  }
  {
    assume "ffs \<noteq> [] \<and> (\<forall>e \<in> set ffs. wf_exposure g e)"
    then show "flat_gain env prefix g acc = Inl IndexError"
      using flat_gain_no_mid_range [OF l _ _ c n] by blast
  }
qed

theorem no_mid_range_exposure_is_fatal_witness:
  "''high'' \<in> set [''hdr'', ''high'', ''low''] \<and>
   load_by_file_prefix sample_env_no_mid (''data/cam_det'' @ ''_flat_'' @ ''high'') =
     Inr [sample_flat_mono 1 4999 10, sample_flat_mono 2 14999 40] \<and>
   channel_medians 0 [sample_flat_mono 1 4999 10, sample_flat_mono 2 14999 40] = [5000, 15000] \<and>
   wf_exposure ''high'' (sample_flat_mono 1 4999 10) \<and>
   wf_exposure ''high'' (sample_flat_mono 2 14999 40) \<and>
   present ''flat'' sample_files \<and>
   flat_gain sample_env_no_mid ''data/cam_det'' ''high'' sample_flats_hdr = Inl IndexError \<and>
   flat_section sample_env_no_mid ''data/cam_det'' sample_dark_products = Inl IndexError \<and>
   (\<exists>e. report_body sample_env_no_mid ''data/cam_det'' sample_files = Inl e)"
proof -
  let ?ffs = "[sample_flat_mono 1 4999 10, sample_flat_mono 2 14999 40]"
  have g: "''high'' \<in> set [''hdr'', ''high'', ''low'']" by simp
  have l: "load_by_file_prefix sample_env_no_mid (''data/cam_det'' @ ''_flat_'' @ ''high'') = Inr ?ffs"
    by (simp add: sample_env_no_mid_def)
  have m: "channel_medians 0 ?ffs = [5000, 15000]"
    by (simp add: channel_medians_def sample_flat_mono_def)
  have w: "wf_exposure ''high'' (sample_flat_mono 1 4999 10)"
    "wf_exposure ''high'' (sample_flat_mono 2 14999 40)"
    by (simp_all add: wf_exposure_def sample_flat_mono_def)
  have n: "\<forall>m \<in> set (channel_medians 0 ?ffs). \<not> (5000 < m \<and> m < 15000)"
    by (simp add: m)
  note t = no_mid_range_exposure_is_fatal
             [where g = "''high''" and env = sample_env_no_mid and prefix = "''data/cam_det''"
                and ffs = ?ffs and c = 0 and st = sample_dark_products and files = sample_files
                and acc = sample_flats_hdr, THEN mp, OF conjI [OF g conjI [OF l conjI [OF _ n]]]]
  have t': "(\<exists>e. flat_section sample_env_no_mid ''data/cam_det'' sample_dark_products = Inl e) \<and>
     (present ''flat'' sample_files \<longrightarrow>
        (\<exists>e. report_body sample_env_no_mid ''data/cam_det'' sample_files = Inl e)) \<and>
     (?ffs \<noteq> [] \<and> (\<forall>e \<in> set ?ffs. wf_exposure ''high'' e) \<longrightarrow>
        flat_gain sample_env_no_mid ''data/cam_det'' ''high'' sample_flats_hdr = Inl IndexError)"
    by (rule t) simp
  from t' w have f: "flat_gain sample_env_no_mid ''data/cam_det'' ''high'' sample_flats_hdr = Inl IndexError"
    by simp
  from t' sample_present(3)
  have r: "\<exists>e. report_body sample_env_no_mid ''data/cam_det'' sample_files = Inl e"
    by blast
  from g l m w sample_present(3) f sample_flat_section_no_mid r show ?thesis
    by (intro conjI)
qed

subsection \<open>The fit of the photon transfer curve\<close>

lemma PowerLaw1D_5000: "PowerLaw1D a 1 (- 1) 5000 = a * 5000"
  by (simp add: PowerLaw1D_def)

lemma ptc_channel_cases:
  assumes "j < length (med_sig acc)" and "j < length (var acc)" and "j < length (gain_label acc)"
  shows "ptc_channel env acc j st =
     (case py_min (mask_select (map (\<lambda>s. s < 15000) (med_sig acc ! j)) (var acc ! j)) of
        Inl e \<Rightarrow> Inl e
      | Inr nf \<Rightarrow>
          (case fit env (mask_select (map (\<lambda>s. s < 15000) (med_sig acc ! j)) (med_sig acc ! j))
                  (map (\<lambda>x. x - nf)
                     (mask_select (map (\<lambda>s. s < 15000) (med_sig acc ! j)) (var acc ! j))) of
             Inl e \<Rightarrow> Inl e
           | Inr m \<Rightarrow>
               if amplitude m = 0 then Inl ZeroDivisionError
               else Inr (convert_to_electrons (gain_label acc ! j) (1 / amplitude m)
                       (st\<lparr>det_gain := (det_gain st)(gain_label acc ! j \<mapsto> 1 / amplitude m)\<rparr>))))"
  using assms
  by (simp add: ptc_channel_def item_def Let_def PowerLaw1D_5000 split: sum.splits)

lemma py_min_error: "py_min xs = Inl e \<Longrightarrow> e = ValueError \<and> xs = []"
  by (simp add: py_min_def split: list.splits)

lemma and_then_case:
  "and_then (case m of Inl e \<Rightarrow> Inl e | Inr x \<Rightarrow> Inr (g x)) k = and_then m (\<lambda>x. k (g x))"
  by (cases m) simp_all

lemma ptc_channel_converged_irrelevant:
  "ptc_channel (env\<lparr>fit := (\<lambda>s v. case fit env s v of Inl e \<Rightarrow> Inl e
                                   | Inr m \<Rightarrow> Inr (m\<lparr>converged := b\<rparr>))\<rparr>) acc j st =
   ptc_channel env acc j st"
  by (simp add: ptc_channel_def Let_def and_then_case cong: if_cong)

lemma ptc_channel_Inl_state:
  "ptc_channel env acc j st = Inl e \<Longrightarrow> ptc_channel env acc j s = Inl e"
  by (auto simp: ptc_channel_def Let_def and_then_Inl and_then_Inr split: if_splits)

lemma for_each_fails:
  assumes "x \<in> set xs" and "\<And>s. \<exists>e. body x s = Inl e"
  shows "\<exists>e. for_each body xs s = Inl e"
  using assms(1)
proof (induction xs arbitrary: s)
  case Nil
  then show ?case by simp
next
  case (Cons y ys)
  show ?case
  proof (cases "body y s")
    case (Inl e)
    then show ?thesis by simp
  next
    case (Inr s')
    with Cons.prems assms(2) [of s] have "x \<in> set ys" by auto
    from Cons.IH [OF this, of s'] Inr show ?thesis by simp
  qed
qed

lemma sample_ptc_channel_unconverged:
  "ptc_channel sample_env_unconverged sample_flats 2 sample_products =
     Inr \<lparr>read_noise = [''high'' \<mapsto> 8], det_gain = [''high'' \<mapsto> 2],
          dark_current = [''high'' \<mapsto> 2], well_depth = [''high'' \<mapsto> 200], pages = []\<rparr>"
  by (simp add: ptc_channel_def sample_env_unconverged_def sample_env_def sample_flats_def
      sample_products_def item_def mask_select_def py_min_def PowerLaw1D_def
      convert_to_electrons_def np_sqrt_def Let_def)

text \<open>
  C9, as the code has it. The result of the fitter is used as it is returned: whether the
  fit converged within its 100 iterations is never looked at, and the result of the
  channel is the same for either value of the flag. For a channel within the lists:

  \<^item> with no sample below 15000 the minimum of no variances raises ValueError;
  \<^item> an exception raised by the fitter ends the channel with that exception;
  \<^item> a fitted amplitude of \<open>0\<close> makes the model \<open>0\<close> at \<open>5000\<close>, and the division of
    line 347 raises ZeroDivisionError;
  \<^item> any other amplitude, of a fit that converged or not, gives the gain
    \<open>5000 / model(5000)\<close>, which is the inverse of the amplitude, and it is recorded for
    the channel.

  An exception in one of the four channels ends the loop over the channels with an
  exception, so that no gain is recorded and no other value takes its place.
\<close>

theorem fit_convergence_is_not_checked:
  "ptc_channel (env\<lparr>fit := (\<lambda>s v. case fit env s v of Inl e \<Rightarrow> Inl e
                                   | Inr m \<Rightarrow> Inr (m\<lparr>converged := b\<rparr>))\<rparr>) acc j st =
     ptc_channel env acc j st \<and>
   (j < length (med_sig acc) \<and> j < length (var acc) \<and> j < length (gain_label acc) \<longrightarrow>
      (case py_min (mask_select (map (\<lambda>s. s < 15000) (med_sig acc ! j)) (var acc ! j)) of
         Inl e \<Rightarrow>
           mask_select (map (\<lambda>s. s < 15000) (med_sig acc ! j)) (var acc ! j) = [] \<and>
           ptc_channel env acc j st = Inl ValueError
       | Inr nf \<Rightarrow>
           (case fit env (mask_select (map (\<lambda>s. s < 15000) (med_sig acc ! j)) (med_sig acc ! j))
                   (map (\<lambda>x. x - nf)
                      (mask_select (map (\<lambda>s. s < 15000) (med_sig acc ! j)) (var acc ! j))) of
              Inl e \<Rightarrow> ptc_channel env acc j st = Inl e
            | Inr m \<Rightarrow>
                if amplitude m = 0 then ptc_channel env acc j st = Inl ZeroDivisionError
                else (\<exists>st'. ptc_channel env acc j st = Inr st' \<and>
                        det_gain st' (gain_label acc ! j) =
                          Some (5000 / PowerLaw1D (amplitude m) 1 (- 1) 5000) \<and>
                        det_gain st' (gain_label acc ! j) = Some (1 / amplitude m))))) \<and>
   (j < 4 \<and> ptc_channel env acc j st = Inl e \<longrightarrow>
      (\<exists>e'. for_each (ptc_channel env acc) [0..<4] st0 = Inl e'))"
proof (intro conjI impI)
  show "ptc_channel (env\<lparr>fit := (\<lambda>s v. case fit env s v of Inl e \<Rightarrow> Inl e
                                   | Inr m \<Rightarrow> Inr (m\<lparr>converged := b\<rparr>))\<rparr>) acc j st =
     ptc_channel env acc j st"
    by (rule ptc_channel_converged_irrelevant)
next
  assume "j < length (med_sig acc) \<and> j < length (var acc) \<and> j < length (gain_label acc)"
  then have c: "ptc_channel env acc j st =
     (case py_min (mask_select (map (\<lambda>s. s < 15000) (med_sig acc ! j)) (var acc ! j)) of
        Inl e \<Rightarrow> Inl e
      | Inr nf \<Rightarrow>
          (case fit env (mask_select (map (\<lambda>s. s < 15000) (med_sig acc ! j)) (med_sig acc ! j))
                  (map (\<lambda>x. x - nf)
                     (mask_select (map (\<lambda>s. s < 15000) (med_sig acc ! j)) (var acc ! j))) of
             Inl e \<Rightarrow> Inl e
           | Inr m \<Rightarrow>
               if amplitude m = 0 then Inl ZeroDivisionError
               else Inr (convert_to_electrons (gain_label acc ! j) (1 / amplitude m)
                       (st\<lparr>det_gain := (det_gain st)(gain_label acc ! j \<mapsto> 1 / amplitude m)\<rparr>))))"
    by (intro ptc_channel_cases) simp_all
  show "case py_min (mask_select (map (\<lambda>s. s < 15000) (med_sig acc ! j)) (var acc ! j)) of
         Inl e \<Rightarrow>
           mask_select (map (\<lambda>s. s < 15000) (med_sig acc ! j)) (var acc ! j) = [] \<and>
           ptc_channel env acc j st = Inl ValueError
       | Inr nf \<Rightarrow>
           (case fit env (mask_select (map (\<lambda>s. s < 15000) (med_sig acc ! j)) (med_sig acc ! j))
                   (map (\<lambda>x. x - nf)
                      (mask_select (map (\<lambda>s. s < 15000) (med_sig acc ! j)) (var acc ! j))) of
              Inl e \<Rightarrow> ptc_channel env acc j st = Inl e
            | Inr m \<Rightarrow>
                if amplitude m = 0 then ptc_channel env acc j st = Inl ZeroDivisionError
                else (\<exists>st'. ptc_channel env acc j st = Inr st' \<and>
                        det_gain st' (gain_label acc ! j) =
                          Some (5000 / PowerLaw1D (amplitude m) 1 (- 1) 5000) \<and>
                        det_gain st' (gain_label acc ! j) = Some (1 / amplitude m)))"
    unfolding c
    by (auto simp: conv_det_gain PowerLaw1D_5000 split: sum.splits dest: py_min_error)
next
  assume a: "j < 4 \<and> ptc_channel env acc j st = Inl e"
  then have "\<exists>e'. ptc_channel env acc j s = Inl e'" for s
    using ptc_channel_Inl_state [of env acc j st e s] by blast
  with a show "\<exists>e'. for_each (ptc_channel env acc) [0..<4] st0 = Inl e'"
    by (intro for_each_fails [of j]) auto
qed

theorem fit_convergence_is_not_checked_witness:
  "(2 :: nat) < length (med_sig sample_flats) \<and> 2 < length (var sample_flats) \<and>
   2 < length (gain_label sample_flats) \<and>
   fit sample_env_unconverged [1000, 6000] [0, 30] =
     Inr \<lparr>amplitude = 1 / 2, converged = False\<rparr> \<and>
   (\<exists>st'. ptc_channel sample_env_unconverged sample_flats 2 sample_products = Inr st' \<and>
          det_gain st' ''high'' = Some 2) \<and>
   fit sample_env_zero_fit [1000, 6000] [0, 30] = Inr \<lparr>amplitude = 0, converged = True\<rparr> \<and>
   ptc_channel sample_env_zero_fit sample_flats 2 sample_products = Inl ZeroDivisionError \<and>
   (\<exists>e'. for_each (ptc_channel sample_env_zero_fit sample_flats) [0..<4] sample_products = Inl e') \<and>
   fit sample_env_fit_raises [1000, 6000] [0, 30] = Inl (ExternalError ''fit'') \<and>
   ptc_channel sample_env_fit_raises sample_flats 2 sample_products = Inl (ExternalError ''fit'') \<and>
   (2 :: nat) < length (med_sig sample_flats_saturated) \<and> 2 < length (var sample_flats_saturated) \<and>
   2 < length (gain_label sample_flats_saturated) \<and>
   mask_select (map (\<lambda>s. s < 15000) (med_sig sample_flats_saturated ! 2))
     (var sample_flats_saturated ! 2) = [] \<and>
   ptc_channel sample_env sample_flats_saturated 2 sample_products = Inl ValueError"
proof -
  have h: "(2 :: nat) < length (med_sig sample_flats) \<and> 2 < length (var sample_flats) \<and>
     2 < length (gain_label sample_flats)"
    by (simp add: sample_flats_def)
  have hs: "(2 :: nat) < length (med_sig sample_flats_saturated) \<and>
     2 < length (var sample_flats_saturated) \<and> 2 < length (gain_label sample_flats_saturated)"
    by (simp add: sample_flats_saturated_def sample_flats_def)
  have m: "py_min (mask_select (map (\<lambda>s. s < 15000) (med_sig sample_flats ! 2))
             (var sample_flats ! 2)) = Inr 10"
    "mask_select (map (\<lambda>s. s < 15000) (med_sig sample_flats ! 2)) (med_sig sample_flats ! 2) =
       [1000, 6000]"
    "mask_select (map (\<lambda>s. s < 15000) (med_sig sample_flats ! 2)) (var sample_flats ! 2) =
       [10, 40]"
    "gain_label sample_flats ! 2 = ''high''"
    by (simp_all add: sample_flats_def mask_select_def py_min_def)
  have ms: "py_min (mask_select (map (\<lambda>s. s < 15000) (med_sig sample_flats_saturated ! 2))
             (var sample_flats_saturated ! 2)) = Inl ValueError"
    by (simp add: sample_flats_saturated_def sample_flats_def mask_select_def py_min_def)
  have f1: "fit sample_env_unconverged [1000, 6000] [0, 30] =
     Inr \<lparr>amplitude = 1 / 2, converged = False\<rparr>"
    by (simp add: sample_env_unconverged_def)
  have f2: "fit sample_env_zero_fit [1000, 6000] [0, 30] = Inr \<lparr>amplitude = 0, converged = True\<rparr>"
    by (simp add: sample_env_zero_fit_def)
  have f3: "fit sample_env_fit_raises [1000, 6000] [0, 30] = Inl (ExternalError ''fit'')"
    by (simp add: sample_env_fit_raises_def)
  from fit_convergence_is_not_checked
         [where env = sample_env_unconverged and acc = sample_flats and j = 2
            and st = sample_products, THEN conjunct2, THEN conjunct1, THEN mp, OF h]
  have a: "\<exists>st'. ptc_channel sample_env_unconverged sample_flats 2 sample_products = Inr st' \<and>
          det_gain st' ''high'' = Some 2"
    by (auto simp: m f1 py_min_def)
  from fit_convergence_is_not_checked
         [where env = sample_env_zero_fit and acc = sample_flats and j = 2
            and st = sample_products, THEN conjunct2, THEN conjunct1, THEN mp, OF h]
  have b: "ptc_channel sample_env_zero_fit sample_flats 2 sample_products = Inl ZeroDivisionError"
    by (simp add: m f2 py_min_def)
  from fit_convergence_is_not_checked
         [where env = sample_env_zero_fit and acc = sample_flats and j = 2
            and st = sample_products and ?st0.0 = sample_products and e = ZeroDivisionError,
          THEN conjunct2, THEN conjunct2, THEN mp] b
  have b': "\<exists>e'. for_each (ptc_channel sample_env_zero_fit sample_flats) [0..<4] sample_products = Inl e'"
    by simp
  from fit_convergence_is_not_checked
         [where env = sample_env_fit_raises and acc = sample_flats and j = 2
            and st = sample_products, THEN conjunct2, THEN conjunct1, THEN mp, OF h]
  have c: "ptc_channel sample_env_fit_raises sample_flats 2 sample_products =
             Inl (ExternalError ''fit'')"
    by (simp add: m f3 py_min_def)
  from fit_convergence_is_not_checked
         [where env = sample_env and acc = sample_flats_saturated and j = 2
            and st = sample_products, THEN conjunct2, THEN conjunct1, THEN mp, OF hs]
  have d: "mask_select (map (\<lambda>s. s < 15000) (med_sig sample_flats_saturated ! 2))
             (var sample_flats_saturated ! 2) = [] \<and>
           ptc_channel sample_env sample_flats_saturated 2 sample_products = Inl ValueError"
    by (simp add: ms)
  from h f1 a f2 b b' f3 c hs d show ?thesis
    by (intro conjI) simp_all
qed

text \<open>
  C9, as stated, fails: a fit that returns the amplitude \<open>1/2\<close> without having converged
  is not fatal for the channel, its gain \<open>2\<close> is recorded and the stored values are
  converted with it.
\<close>

theorem unconverged_fit_records_gain:
  "fit sample_env_unconverged [1000, 6000] [0, 30] = Inr \<lparr>amplitude = 1 / 2, converged = False\<rparr> \<and>
   ptc_channel sample_env_unconverged sample_flats 2 sample_products =
     Inr \<lparr>read_noise = [''high'' \<mapsto> 8], det_gain = [''high'' \<mapsto> 2],
          dark_current = [''high'' \<mapsto> 2], well_depth = [''high'' \<mapsto> 200], pages = []\<rparr>"
  by (simp add: sample_ptc_channel_unconverged) (simp add: sample_env_unconverged_def)

subsection \<open>The empty directory and the absent conditions\<close>









end
